theory Spec2Isabelle
  imports Main "HOL-Library.Sublist"
begin

section \<open>JavaScript values\<close>

text \<open>
  Strings are sequences of 8-bit characters: the JavaScript strings whose code units all lie
  in U+0000..U+00FF. Numbers that the program computes with are Unix seconds, HTTP status
  codes and millisecond clocks; they are integer-valued and far from the limits of a double,
  so a number is an exact integer or \<open>NaN\<close> (what \<open>parseInt\<close> returns when it finds no digit).
  Rounding of doubles is not modelled.
\<close>

datatype jsnum = Num int | NaN

fun js_le :: "jsnum \<Rightarrow> jsnum \<Rightarrow> bool" where
  "js_le (Num a) (Num b) = (a \<le> b)"
| "js_le _ _ = False"

fun js_sub :: "jsnum \<Rightarrow> jsnum \<Rightarrow> jsnum" where
  "js_sub (Num a) (Num b) = Num (a - b)"
| "js_sub _ _ = NaN"

fun js_add :: "jsnum \<Rightarrow> jsnum \<Rightarrow> jsnum" where
  "js_add (Num a) (Num b) = Num (a + b)"
| "js_add _ _ = NaN"

text \<open>\<open>a || b\<close> on strings: the empty string is falsy.\<close>

definition str_or :: "string \<Rightarrow> string \<Rightarrow> string" where
  "str_or a b = (if a \<noteq> [] then a else b)"

text \<open>\<open>a || b\<close> where \<open>a\<close> may also be \<open>undefined\<close>, and \<open>a || undefined\<close>.\<close>

definition opt_or :: "string option \<Rightarrow> string \<Rightarrow> string" where
  "opt_or a b = (case a of Some s \<Rightarrow> str_or s b | None \<Rightarrow> b)"

definition opt_or_opt :: "string option \<Rightarrow> string option \<Rightarrow> string option" where
  "opt_or_opt a b = (case a of Some s \<Rightarrow> (if s \<noteq> [] then Some s else b) | None \<Rightarrow> b)"

subsection \<open>parseInt(s, 10) and Number.prototype.toString\<close>

definition isWhiteSpace :: "char \<Rightarrow> bool" where
  "isWhiteSpace c = ((9::nat) \<le> of_char c \<and> of_char c \<le> (13::nat) \<or> of_char c = (32::nat)
      \<or> of_char c = (160::nat))"

definition isDigit :: "char \<Rightarrow> bool" where
  "isDigit c = ((48::nat) \<le> of_char c \<and> of_char c \<le> (57::nat))"

definition digitValue :: "char \<Rightarrow> nat" where
  "digitValue c = of_char c - 48"

definition digitsValue :: "string \<Rightarrow> nat" where
  "digitsValue ds = foldl (\<lambda>acc c. acc * 10 + digitValue c) 0 ds"

definition parseInt :: "string \<Rightarrow> jsnum" where
  "parseInt s =
     (let t = dropWhile isWhiteSpace s;
          neg = (case t of c # _ \<Rightarrow> c = CHR ''-'' | [] \<Rightarrow> False);
          u = (case t of c # r \<Rightarrow> if c = CHR ''-'' \<or> c = CHR ''+'' then r else t | [] \<Rightarrow> t);
          ds = takeWhile isDigit u
      in if ds = [] then NaN
         else Num (if neg then - int (digitsValue ds) else int (digitsValue ds)))"

definition digitChar :: "nat \<Rightarrow> char" where
  "digitChar d = char_of (48 + d)"

fun natToString :: "nat \<Rightarrow> string" where
  "natToString n = (if n < 10 then [digitChar n] else natToString (n div 10) @ [digitChar (n mod 10)])"

declare natToString.simps [simp del]

definition intToString :: "int \<Rightarrow> string" where
  "intToString i = (if i < 0 then CHR ''-'' # natToString (nat (- i)) else natToString (nat i))"

definition numberToString :: "jsnum \<Rightarrow> string" where
  "numberToString x = (case x of Num i \<Rightarrow> intToString i | NaN \<Rightarrow> ''NaN'')"

subsection \<open>String.prototype.toLowerCase, includes, endsWith\<close>

definition lowerChar :: "char \<Rightarrow> char" where
  "lowerChar c =
     (let n = (of_char c :: nat)
      in if 65 \<le> n \<and> n \<le> 90 then char_of (n + 32)
         else if 192 \<le> n \<and> n \<le> 222 \<and> n \<noteq> 215 then char_of (n + 32)
         else c)"

definition toLowerCase :: "string \<Rightarrow> string" where
  "toLowerCase s = map lowerChar s"

fun str_includes :: "string \<Rightarrow> string \<Rightarrow> bool" where
  "str_includes [] needle = (needle = [])"
| "str_includes (c # cs) needle = (prefix needle (c # cs) \<or> str_includes cs needle)"

definition endsWith :: "string \<Rightarrow> string \<Rightarrow> bool" where
  "endsWith s t = suffix t s"

section \<open>Platform codecs\<close>

text \<open>
  \<open>Buffer.from(s, 'utf8')\<close>, \<open>buf.toString('utf8')\<close>, \<open>buf.toString('base64')\<close>,
  \<open>Buffer.from(s, 'base64')\<close>, \<open>JSON.stringify\<close> and \<open>JSON.parse\<close>, as far as the program uses
  them. A buffer is a list of bytes, written with the same 8-bit characters.
\<close>

type_synonym bytes = "char list"

subsection \<open>UTF-8\<close>

definition utf8_encode_char :: "char \<Rightarrow> bytes" where
  "utf8_encode_char c =
     (let n = (of_char c :: nat)
      in if n < 128 then [c] else [char_of (192 + n div 64), char_of (128 + n mod 64)])"

definition utf8_encode :: "string \<Rightarrow> bytes" where
  "utf8_encode s = concat (map utf8_encode_char s)"

text \<open>
  Decoding yields the code units up to U+00FF. A byte that starts no sequence of this
  alphabet (a longer sequence, or a malformed one, where the platform writes a character
  beyond U+00FF) is written \<open>?\<close>.
\<close>

fun utf8_decode :: "bytes \<Rightarrow> string" where
  "utf8_decode [] = []"
| "utf8_decode [b] = [if (of_char b :: nat) < 128 then b else CHR ''?'']"
| "utf8_decode (b # b2 # bs) =
     (if (of_char b :: nat) < 128 then b # utf8_decode (b2 # bs)
      else if ((of_char b :: nat) = 194 \<or> (of_char b :: nat) = 195)
              \<and> (128::nat) \<le> of_char b2 \<and> (of_char b2 :: nat) < 192
        then char_of (((of_char b :: nat) - 192) * 64 + (of_char b2 - 128)) # utf8_decode bs
      else CHR ''?'' # utf8_decode (b2 # bs))"

subsection \<open>Base64\<close>

definition b64char :: "nat \<Rightarrow> char" where
  "b64char i =
     (if i < 26 then char_of (65 + i)
      else if i < 52 then char_of (71 + i)
      else if i < 62 then char_of (i - 4)
      else if i = 62 then CHR ''+'' else CHR ''/'')"

definition b64value :: "char \<Rightarrow> nat option" where
  "b64value c =
     (let n = (of_char c :: nat)
      in if 65 \<le> n \<and> n \<le> 90 then Some (n - 65)
         else if 97 \<le> n \<and> n \<le> 122 then Some (n - 71)
         else if 48 \<le> n \<and> n \<le> 57 then Some (n + 4)
         else if c = CHR ''+'' \<or> c = CHR ''-'' then Some 62
         else if c = CHR ''/'' \<or> c = CHR ''_'' then Some 63
         else None)"

fun base64_encode :: "bytes \<Rightarrow> string" where
  "base64_encode [] = []"
| "base64_encode [a] =
     [b64char (of_char a div 4), b64char ((of_char a mod 4) * 16), CHR ''='', CHR ''='']"
| "base64_encode [a, b] =
     [b64char (of_char a div 4), b64char ((of_char a mod 4) * 16 + of_char b div 16),
      b64char ((of_char b mod 16) * 4), CHR ''='']"
| "base64_encode (a # b # c # r) =
     b64char (of_char a div 4) # b64char ((of_char a mod 4) * 16 + of_char b div 16)
       # b64char ((of_char b mod 16) * 4 + of_char c div 64) # b64char (of_char c mod 64)
       # base64_encode r"

fun b64_bytes :: "nat list \<Rightarrow> bytes" where
  "b64_bytes (p # q # r # s # rest) =
     char_of (p * 4 + q div 16) # char_of ((q mod 16) * 16 + r div 4)
       # char_of ((r mod 4) * 64 + s) # b64_bytes rest"
| "b64_bytes [p, q, r] = [char_of (p * 4 + q div 16), char_of ((q mod 16) * 16 + r div 4)]"
| "b64_bytes [p, q] = [char_of (p * 4 + q div 16)]"
| "b64_bytes _ = []"

text \<open>
  The decoder is lenient, as the platform's is: it stops at the first \<open>=\<close>, skips every
  character outside the alphabet, and accepts the URL-safe \<open>-\<close> and \<open>_\<close>.
\<close>

definition base64_decode :: "string \<Rightarrow> bytes" where
  "base64_decode s = b64_bytes (List.map_filter b64value (takeWhile (\<lambda>c. c \<noteq> CHR ''='') s))"

subsection \<open>JSON\<close>

datatype json =
    JNull
  | JBool bool
  | JNum int
  | JNumLit string
  | JStr string
  | JArr "json list"
  | JObj "(string \<times> json) list"

abbreviation DQ :: char where "DQ \<equiv> CHR 0x22"
abbreviation BS :: char where "BS \<equiv> CHR 0x5C"

definition hexDigit :: "nat \<Rightarrow> char" where
  "hexDigit d = (if d < 10 then char_of (48 + d) else char_of (87 + d))"

definition hexValue :: "char \<Rightarrow> nat option" where
  "hexValue c =
     (let n = (of_char c :: nat)
      in if 48 \<le> n \<and> n \<le> 57 then Some (n - 48)
         else if 97 \<le> n \<and> n \<le> 102 then Some (n - 87)
         else if 65 \<le> n \<and> n \<le> 70 then Some (n - 55)
         else None)"

definition quoteChar :: "char \<Rightarrow> string" where
  "quoteChar c =
     (if c = DQ then [BS, DQ]
      else if c = BS then [BS, BS]
      else if c = CHR 0x08 then [BS, CHR ''b'']
      else if c = CHR 0x0C then [BS, CHR ''f'']
      else if c = CHR 0x0A then [BS, CHR ''n'']
      else if c = CHR 0x0D then [BS, CHR ''r'']
      else if c = CHR 0x09 then [BS, CHR ''t'']
      else if (of_char c :: nat) < 32
        then [BS, CHR ''u'', CHR ''0'', CHR ''0'', hexDigit (of_char c div 16), hexDigit (of_char c mod 16)]
      else [c])"

definition quoteJSONString :: "string \<Rightarrow> string" where
  "quoteJSONString s = DQ # concat (map quoteChar s) @ [DQ]"

fun JSON_stringify :: "json \<Rightarrow> string"
  and stringify_elements :: "json list \<Rightarrow> string"
  and stringify_members :: "(string \<times> json) list \<Rightarrow> string"
where
  "JSON_stringify JNull = ''null''"
| "JSON_stringify (JBool b) = (if b then ''true'' else ''false'')"
| "JSON_stringify (JNum i) = intToString i"
| "JSON_stringify (JNumLit s) = s"
| "JSON_stringify (JStr s) = quoteJSONString s"
| "JSON_stringify (JArr xs) = ''['' @ stringify_elements xs @ '']''"
| "JSON_stringify (JObj kvs) = ''{'' @ stringify_members kvs @ ''}''"
| "stringify_elements [] = []"
| "stringify_elements [x] = JSON_stringify x"
| "stringify_elements (x # y # ys) = JSON_stringify x @ '','' @ stringify_elements (y # ys)"
| "stringify_members [] = []"
| "stringify_members [(k, v)] = quoteJSONString k @ '':'' @ JSON_stringify v"
| "stringify_members ((k, v) # kv # kvs) =
     quoteJSONString k @ '':'' @ JSON_stringify v @ '','' @ stringify_members (kv # kvs)"

definition isJsonWs :: "char \<Rightarrow> bool" where
  "isJsonWs c = (c = CHR 0x20 \<or> c = CHR 0x09 \<or> c = CHR 0x0A \<or> c = CHR 0x0D)"

definition skipWs :: "string \<Rightarrow> string" where
  "skipWs s = dropWhile isJsonWs s"

definition unescape :: "char \<Rightarrow> char option" where
  "unescape e =
     (if e = DQ then Some DQ
      else if e = BS then Some BS
      else if e = CHR ''/'' then Some (CHR ''/'')
      else if e = CHR ''b'' then Some (CHR 0x08)
      else if e = CHR ''f'' then Some (CHR 0x0C)
      else if e = CHR ''n'' then Some (CHR 0x0A)
      else if e = CHR ''r'' then Some (CHR 0x0D)
      else if e = CHR ''t'' then Some (CHR 0x09)
      else None)"

text \<open>A \<open>\uXXXX\<close> escape beyond U+00FF is written \<open>?\<close>, as in \<open>utf8_decode\<close>.\<close>

definition codeUnit :: "nat \<Rightarrow> char" where
  "codeUnit n = (if n < 256 then char_of n else CHR ''?'')"

text \<open>The characters of a string literal, read after its opening quote.\<close>

fun parse_chars :: "string \<Rightarrow> (string \<times> string) option" where
  "parse_chars [] = None"
| "parse_chars (c # cs) =
     (if c = DQ then Some ([], cs)
      else if c = BS then
        (case cs of
           [] \<Rightarrow> None
         | e # r \<Rightarrow>
             if e = CHR ''u'' then
               (case r of
                  h1 # h2 # h3 # h4 # r' \<Rightarrow>
                    (case (hexValue h1, hexValue h2, hexValue h3, hexValue h4) of
                       (Some a, Some b, Some c', Some d) \<Rightarrow>
                         map_option (\<lambda>(s, t). (codeUnit (((a * 16 + b) * 16 + c') * 16 + d) # s, t))
                           (parse_chars r')
                     | _ \<Rightarrow> None)
                | _ \<Rightarrow> None)
             else (case unescape e of
                     None \<Rightarrow> None
                   | Some x \<Rightarrow> map_option (\<lambda>(s, t). (x # s, t)) (parse_chars r)))
      else if (of_char c :: nat) < 32 then None
      else map_option (\<lambda>(s, t). (c # s, t)) (parse_chars cs))"

text \<open>
  A number literal. One without fraction and exponent is an integer; any other is kept as
  its text (no claim reads such a number).
\<close>

definition parse_number :: "string \<Rightarrow> (json \<times> string) option" where
  "parse_number s =
     (let neg = (case s of c # _ \<Rightarrow> c = CHR ''-'' | [] \<Rightarrow> False);
          s1 = (if neg then tl s else s);
          ip = takeWhile isDigit s1;
          s2 = dropWhile isDigit s1;
          hasFrac = (case s2 of c # _ \<Rightarrow> c = CHR ''.'' | [] \<Rightarrow> False);
          fp = (if hasFrac then takeWhile isDigit (tl s2) else []);
          s3 = (if hasFrac then dropWhile isDigit (tl s2) else s2);
          hasExp = (case s3 of c # _ \<Rightarrow> c = CHR ''e'' \<or> c = CHR ''E'' | [] \<Rightarrow> False);
          s3' = (if hasExp then tl s3 else s3);
          hasSign = (hasExp \<and> (case s3' of c # _ \<Rightarrow> c = CHR ''+'' \<or> c = CHR ''-'' | [] \<Rightarrow> False));
          s3'' = (if hasSign then tl s3' else s3');
          ep = (if hasExp then takeWhile isDigit s3'' else []);
          s4 = (if hasExp then dropWhile isDigit s3'' else s3)
      in if ip = [] \<or> (1 < length ip \<and> hd ip = CHR ''0'') then None
         else if hasFrac \<and> fp = [] then None
         else if hasExp \<and> ep = [] then None
         else if \<not> hasFrac \<and> \<not> hasExp
           then Some (JNum (if neg then - int (digitsValue ip) else int (digitsValue ip)), s2)
         else Some (JNumLit (take (length s - length s4) s), s4))"

text \<open>Assigning a property: a key already present keeps its place and takes the new value.\<close>

fun setProp :: "string \<Rightarrow> json \<Rightarrow> (string \<times> json) list \<Rightarrow> (string \<times> json) list" where
  "setProp k v [] = [(k, v)]"
| "setProp k v ((k', v') # r) = (if k' = k then (k, v) # r else (k', v') # setProp k v r)"

definition makeObject :: "(string \<times> json) list \<Rightarrow> json" where
  "makeObject kvs = JObj (foldl (\<lambda>acc kv. setProp (fst kv) (snd kv) acc) [] kvs)"

text \<open>
  The recursive-descent parser. Its first argument bounds the number of nested calls;
  \<open>JSON_parse\<close> starts it with more than the text can use (two calls at most per character).
\<close>

fun parse_value :: "nat \<Rightarrow> string \<Rightarrow> (json \<times> string) option"
  and parse_elements :: "nat \<Rightarrow> string \<Rightarrow> (json list \<times> string) option"
  and parse_members :: "nat \<Rightarrow> string \<Rightarrow> ((string \<times> json) list \<times> string) option"
where
  "parse_value 0 s = None"
| "parse_value (Suc n) s =
     (case skipWs s of
        [] \<Rightarrow> None
      | c # r \<Rightarrow>
          if c = CHR ''{'' then
            (case skipWs r of
               [] \<Rightarrow> None
             | d # r' \<Rightarrow>
                 if d = CHR ''}'' then Some (JObj [], r')
                 else map_option (\<lambda>(kvs, t). (makeObject kvs, t)) (parse_members n (d # r')))
          else if c = CHR ''['' then
            (case skipWs r of
               [] \<Rightarrow> None
             | d # r' \<Rightarrow>
                 if d = CHR '']'' then Some (JArr [], r')
                 else map_option (\<lambda>(xs, t). (JArr xs, t)) (parse_elements n (d # r')))
          else if c = DQ then map_option (\<lambda>(x, t). (JStr x, t)) (parse_chars r)
          else if prefix ''true'' (c # r) then Some (JBool True, drop 4 (c # r))
          else if prefix ''false'' (c # r) then Some (JBool False, drop 5 (c # r))
          else if prefix ''null'' (c # r) then Some (JNull, drop 4 (c # r))
          else parse_number (c # r))"
| "parse_elements 0 s = None"
| "parse_elements (Suc n) s =
     (case parse_value n s of
        None \<Rightarrow> None
      | Some (v, t) \<Rightarrow>
          (case skipWs t of
             [] \<Rightarrow> None
           | d # t' \<Rightarrow>
               if d = CHR '']'' then Some ([v], t')
               else if d = CHR '','' then map_option (\<lambda>(vs, u). (v # vs, u)) (parse_elements n t')
               else None))"
| "parse_members 0 s = None"
| "parse_members (Suc n) s =
     (case skipWs s of
        [] \<Rightarrow> None
      | q # r \<Rightarrow>
          if q \<noteq> DQ then None
          else
            (case parse_chars r of
               None \<Rightarrow> None
             | Some (k, t) \<Rightarrow>
                 (case skipWs t of
                    [] \<Rightarrow> None
                  | col # t' \<Rightarrow>
                      if col \<noteq> CHR '':'' then None
                      else
                        (case parse_value n t' of
                           None \<Rightarrow> None
                         | Some (v, u) \<Rightarrow>
                             (case skipWs u of
                                [] \<Rightarrow> None
                              | d # u' \<Rightarrow>
                                  if d = CHR ''}'' then Some ([(k, v)], u')
                                  else if d = CHR '','' then
                                    map_option (\<lambda>(kvs, w). ((k, v) # kvs, w)) (parse_members n u')
                                  else None)))))"

text \<open>\<open>JSON.parse\<close>: \<open>None\<close> stands for the \<open>SyntaxError\<close> it throws.\<close>

definition JSON_parse :: "string \<Rightarrow> json option" where
  "JSON_parse s =
     (case parse_value (2 * length s + 2) s of
        None \<Rightarrow> None
      | Some (v, r) \<Rightarrow> if skipWs r = [] then Some v else None)"

section \<open>The header factory (header-factory.ts)\<close>

record RouterConfig =
  cfg_network :: string
  cfg_asset :: string
  cfg_payTo :: string
  cfg_facilitatorSigner :: string
  cfg_tokenName :: string
  cfg_tokenVersion :: string
  cfg_paymentHeader :: "string option"

record Extra =
  extra_name :: string
  extra_version :: string

record Accepted =
  acc_scheme :: string
  acc_network :: string
  acc_asset :: string
  acc_payTo :: string
  acc_extra :: Extra

record Authorization =
  auth_from :: string
  auth_to :: string
  auth_value :: string
  auth_validBefore :: string
  auth_nonce :: string

record Payload =
  pl_authorization :: Authorization
  pl_signature :: string

record PaymentPayload =
  pp_x402Version :: int
  pp_accepted :: Accepted
  pp_payload :: Payload

record SignatureInput =
  si_network :: string
  si_asset :: string
  si_payTo :: string
  si_facilitatorSigner :: string
  si_tokenName :: string
  si_tokenVersion :: string
  si_permitCap :: string
  si_minDeadlineExclusive :: "jsnum option"

record SignatureOutput =
  so_signature :: string
  so_nonce :: string
  so_deadline :: string
  so_accountAddress :: string

text \<open>
  A signing function is asynchronous and may touch the outside world (the chain, a clock, a
  mock's script): it takes the world and returns the new one. \<open>None\<close> is a rejected promise.
\<close>

type_synonym 'w SignatureFn = "SignatureInput \<Rightarrow> 'w \<Rightarrow> SignatureOutput option \<times> 'w"

record CachedHeader =
  ch_value :: string
  ch_deadline :: jsnum
  ch_maxValue :: string
  ch_network :: string
  ch_asset :: string
  ch_payTo :: string

record HeaderResult =
  hr_headerName :: string
  hr_headerValue :: string
  hr_deadline :: jsnum

record GetHeaderOptions =
  capOverride :: "string option"
  minDeadlineExclusive :: "jsnum option"

subsection \<open>HTTP values and the trace of outside calls\<close>

text \<open>
  A \<open>Headers\<close> object maps lower-cased names to values. Of a \<open>RequestInit\<close> the program reads
  only \<open>headers\<close>; everything else (method, body, ...) is carried along as \<open>ri_rest\<close>.
\<close>

type_synonym Headers = "string \<rightharpoonup> string"

definition Headers_set :: "string \<Rightarrow> string \<Rightarrow> Headers \<Rightarrow> Headers" where
  "Headers_set name v h = h(toLowerCase name \<mapsto> v)"

definition Headers_get :: "string \<Rightarrow> Headers \<Rightarrow> string option" where
  "Headers_get name h = h (toLowerCase name)"

record RequestInit =
  ri_headers :: "Headers option"
  ri_rest :: string

text \<open>
  Of a \<open>Response\<close> the program reads the status, the headers and the result of \<open>json()\<close>
  (\<open>None\<close> when that promise rejects: the body is not JSON).
\<close>

record Response =
  status :: int
  resp_headers :: Headers
  resp_json :: "json option"
  resp_rest :: string

text \<open>Every call of the signing function and of the transport is recorded, in order.\<close>

datatype event =
    SignatureCall SignatureInput
  | FetchCall string "RequestInit option"

fun isSignatureCall :: "event \<Rightarrow> bool" where
  "isSignatureCall (SignatureCall _) = True"
| "isSignatureCall (FetchCall _ _) = False"

fun isFetchCall :: "event \<Rightarrow> bool" where
  "isFetchCall (FetchCall _ _) = True"
| "isFetchCall (SignatureCall _) = False"

definition signatureCalls :: "event list \<Rightarrow> nat" where
  "signatureCalls evs = length (filter isSignatureCall evs)"

definition fetchCalls :: "event list \<Rightarrow> nat" where
  "fetchCalls evs = length (filter isFetchCall evs)"

text \<open>The clock: \<open>Date.now()\<close>, in milliseconds, read from the world.\<close>

record 'w Clock =
  Date_now :: "'w \<Rightarrow> int"

subsection \<open>Payload\<close>

definition PRE_INVALIDATE_WINDOW_SECONDS :: int where
  "PRE_INVALIDATE_WINDOW_SECONDS = 60"

text \<open>The object a \<open>PaymentPayload\<close> is in memory: its properties in the order of the literal.\<close>

definition payloadObject :: "PaymentPayload \<Rightarrow> json" where
  "payloadObject p =
     JObj [
       (''x402Version'', JNum (pp_x402Version p)),
       (''accepted'', JObj [
          (''scheme'', JStr (acc_scheme (pp_accepted p))),
          (''network'', JStr (acc_network (pp_accepted p))),
          (''asset'', JStr (acc_asset (pp_accepted p))),
          (''payTo'', JStr (acc_payTo (pp_accepted p))),
          (''extra'', JObj [
             (''name'', JStr (extra_name (acc_extra (pp_accepted p)))),
             (''version'', JStr (extra_version (acc_extra (pp_accepted p))))])]),
       (''payload'', JObj [
          (''authorization'', JObj [
             (''from'', JStr (auth_from (pl_authorization (pp_payload p)))),
             (''to'', JStr (auth_to (pl_authorization (pp_payload p)))),
             (''value'', JStr (auth_value (pl_authorization (pp_payload p)))),
             (''validBefore'', JStr (auth_validBefore (pl_authorization (pp_payload p)))),
             (''nonce'', JStr (auth_nonce (pl_authorization (pp_payload p))))]),
          (''signature'', JStr (pl_signature (pp_payload p)))])]"

definition encodePaymentPayload :: "PaymentPayload \<Rightarrow> string" where
  "encodePaymentPayload payload =
     base64_encode (utf8_encode (JSON_stringify (payloadObject payload)))"

text \<open>
  \<open>decodePaymentPayload\<close> returns what \<open>JSON.parse\<close> returns (the cast to \<open>PaymentPayload\<close>
  checks nothing); \<open>None\<close> is the \<open>SyntaxError\<close> it lets through.
\<close>

definition decodePaymentPayload :: "string \<Rightarrow> json option" where
  "decodePaymentPayload encoded = JSON_parse (utf8_decode (base64_decode encoded))"

record BuildInput =
  bi_config :: RouterConfig
  bi_accountAddress :: string
  bi_permitCap :: string
  bi_signature :: string
  bi_nonce :: string
  bi_deadline :: string

definition buildPaymentPayload :: "BuildInput \<Rightarrow> PaymentPayload" where
  "buildPaymentPayload input =
     \<lparr> pp_x402Version = 2,
       pp_accepted =
         \<lparr> acc_scheme = ''upto'',
           acc_network = cfg_network (bi_config input),
           acc_asset = cfg_asset (bi_config input),
           acc_payTo = cfg_payTo (bi_config input),
           acc_extra =
             \<lparr> extra_name = cfg_tokenName (bi_config input),
               extra_version = cfg_tokenVersion (bi_config input) \<rparr> \<rparr>,
       pp_payload =
         \<lparr> pl_authorization =
             \<lparr> auth_from = bi_accountAddress input,
               auth_to = cfg_facilitatorSigner (bi_config input),
               auth_value = bi_permitCap input,
               auth_validBefore = bi_deadline input,
               auth_nonce = bi_nonce input \<rparr>,
           pl_signature = bi_signature input \<rparr> \<rparr>"

subsection \<open>The factory\<close>

definition isNearDeadline :: "'w Clock \<Rightarrow> 'w \<Rightarrow> jsnum \<Rightarrow> bool" where
  "isNearDeadline K w deadline =
     (let now = Date_now K w div 1000
      in js_le (js_sub deadline (Num now)) (Num PRE_INVALIDATE_WINDOW_SECONDS))"

text \<open>
  The closure of \<open>createPaymentHeaderFactory\<close>: its \<open>input\<close> (fixed) and its two variables
  \<open>config\<close> and \<open>cached\<close>.
\<close>

record 'w HeaderFactory =
  hf_permitCap :: string
  hf_signatureFn :: "'w SignatureFn"
  config :: RouterConfig
  cached :: "CachedHeader option"

record 'w FactoryInput =
  fi_config :: RouterConfig
  fi_permitCap :: string
  fi_signatureFn :: "'w SignatureFn"

definition createPaymentHeaderFactory :: "'w FactoryInput \<Rightarrow> 'w HeaderFactory" where
  "createPaymentHeaderFactory input =
     \<lparr> hf_permitCap = fi_permitCap input, hf_signatureFn = fi_signatureFn input,
       config = fi_config input, cached = None \<rparr>"

definition invalidate :: "'w HeaderFactory \<Rightarrow> 'w HeaderFactory" where
  "invalidate f = f\<lparr>cached := None\<rparr>"

definition updateConfig :: "RouterConfig \<Rightarrow> 'w HeaderFactory \<Rightarrow> 'w HeaderFactory" where
  "updateConfig nextConfig f = f\<lparr>config := nextConfig\<rparr>"

definition getConfig :: "'w HeaderFactory \<Rightarrow> RouterConfig" where
  "getConfig f = config f"

text \<open>\<open>const cap = options?.capOverride || input.permitCap\<close>\<close>

definition effectiveCap :: "'w HeaderFactory \<Rightarrow> GetHeaderOptions option \<Rightarrow> string" where
  "effectiveCap f options = opt_or (Option.bind options capOverride) (hf_permitCap f)"

text \<open>\<open>const forceRefresh = options?.minDeadlineExclusive !== undefined\<close>\<close>

definition forceRefresh :: "GetHeaderOptions option \<Rightarrow> bool" where
  "forceRefresh options = (Option.bind options minDeadlineExclusive \<noteq> None)"

text \<open>The condition of the first \<open>if\<close> of \<open>getHeader\<close>; it yields the entry to return.\<close>

definition cacheHit ::
  "'w Clock \<Rightarrow> 'w HeaderFactory \<Rightarrow> GetHeaderOptions option \<Rightarrow> 'w \<Rightarrow> CachedHeader option" where
  "cacheHit K f options w =
     (case cached f of
        None \<Rightarrow> None
      | Some c \<Rightarrow>
          if \<not> forceRefresh options
             \<and> ch_maxValue c = effectiveCap f options
             \<and> ch_network c = cfg_network (config f)
             \<and> ch_asset c = cfg_asset (config f)
             \<and> ch_payTo c = cfg_payTo (config f)
             \<and> \<not> isNearDeadline K w (ch_deadline c)
          then Some c else None)"

definition headerName :: "RouterConfig \<Rightarrow> string" where
  "headerName c = opt_or (cfg_paymentHeader c) ''PAYMENT-SIGNATURE''"

text \<open>
  \<open>getHeader\<close> returns the header (or \<open>None\<close> when the signing function rejects), the factory
  and the world after the call, and the outside calls it made.
\<close>

text \<open>The object handed to \<open>input.signatureFn\<close>.\<close>

definition signatureInput :: "'w HeaderFactory \<Rightarrow> GetHeaderOptions option \<Rightarrow> SignatureInput" where
  "signatureInput f options =
     \<lparr> si_network = cfg_network (config f),
       si_asset = cfg_asset (config f),
       si_payTo = cfg_payTo (config f),
       si_facilitatorSigner = cfg_facilitatorSigner (config f),
       si_tokenName = cfg_tokenName (config f),
       si_tokenVersion = cfg_tokenVersion (config f),
       si_permitCap = effectiveCap f options,
       si_minDeadlineExclusive = Option.bind options minDeadlineExclusive \<rparr>"

definition getHeader ::
  "'w Clock \<Rightarrow> GetHeaderOptions option \<Rightarrow> 'w HeaderFactory \<Rightarrow> 'w
     \<Rightarrow> HeaderResult option \<times> 'w HeaderFactory \<times> 'w \<times> event list" where
  "getHeader K options f w =
     (let cap = effectiveCap f options
      in case cacheHit K f options w of
           Some c \<Rightarrow>
             (Some \<lparr> hr_headerName = headerName (config f),
                     hr_headerValue = ch_value c,
                     hr_deadline = ch_deadline c \<rparr>, f, w, [])
         | None \<Rightarrow>
             (case hf_signatureFn f (signatureInput f options) w of
                (None, w') \<Rightarrow> (None, f, w', [SignatureCall (signatureInput f options)])
              | (Some signature, w') \<Rightarrow>
                  (let payload = buildPaymentPayload
                         \<lparr> bi_config = config f,
                           bi_accountAddress = so_accountAddress signature,
                           bi_permitCap = cap,
                           bi_signature = so_signature signature,
                           bi_nonce = so_nonce signature,
                           bi_deadline = so_deadline signature \<rparr>;
                       encoded = encodePaymentPayload payload;
                       deadline = parseInt (so_deadline signature)
                   in (Some \<lparr> hr_headerName = headerName (config f),
                              hr_headerValue = encoded,
                              hr_deadline = deadline \<rparr>,
                       f\<lparr>cached := Some
                           \<lparr> ch_value = encoded,
                             ch_deadline = deadline,
                             ch_maxValue = cap,
                             ch_network = cfg_network (config f),
                             ch_asset = cfg_asset (config f),
                             ch_payTo = cfg_payTo (config f) \<rparr>\<rparr>,
                       w', [SignatureCall (signatureInput f options)]))))"

text \<open>The header value built from a signature on a cache miss.\<close>

definition signedHeader :: "'w HeaderFactory \<Rightarrow> GetHeaderOptions option \<Rightarrow> SignatureOutput \<Rightarrow> string" where
  "signedHeader f options s =
     encodePaymentPayload (buildPaymentPayload
       \<lparr> bi_config = config f, bi_accountAddress = so_accountAddress s,
         bi_permitCap = effectiveCap f options, bi_signature = so_signature s,
         bi_nonce = so_nonce s, bi_deadline = so_deadline s \<rparr>)"

text \<open>
  The effective cap in the words of the corrected claim: \<open>capOverride\<close> when it is given and
  not empty, the configured \<open>permitCap\<close> otherwise.
\<close>

definition capOrDefault :: "string option \<Rightarrow> string \<Rightarrow> string" where
  "capOrDefault override permitCap =
     (case override of None \<Rightarrow> permitCap | Some c \<Rightarrow> if c = [] then permitCap else c)"

section \<open>The signing source (signature-sources.ts)\<close>

definition DEFAULT_VALIDITY_SECONDS :: int where
  "DEFAULT_VALIDITY_SECONDS = 3600"

datatype Chain = base | baseSepolia | mainnet

definition CHAINS :: "string \<rightharpoonup> Chain" where
  "CHAINS = [''eip155:8453'' \<mapsto> base, ''eip155:84532'' \<mapsto> baseSepolia, ''eip155:1'' \<mapsto> mainnet]"

text \<open>\<open>s.split(d)\<close> for a one-character separator.\<close>

fun split :: "char \<Rightarrow> string \<Rightarrow> string list" where
  "split d [] = [[]]"
| "split d (c # cs) =
     (if c = d then [] # split d cs
      else (case split d cs of x # xs \<Rightarrow> (c # x) # xs | [] \<Rightarrow> [[c]]))"

text \<open>
  The typed data handed to \<open>wallet.signTypedData\<close>. \<open>value\<close> and \<open>nonce\<close> are the strings
  given to \<open>BigInt\<close>; a conversion that throws is a rejection of the call.
\<close>

record TypedData =
  td_name :: string
  td_version :: string
  td_chainId :: jsnum
  td_verifyingContract :: string
  td_owner :: string
  td_spender :: string
  td_value :: string
  td_nonce :: string
  td_deadline :: jsnum

text \<open>
  The wallet library and the chain behind it: the account of a private key, the \<open>nonces\<close>
  view of the token contract, and the signature of typed data. \<open>None\<close> is a rejected promise.
\<close>

record 'w Viem =
  privateKeyToAccount :: "string \<Rightarrow> string"
  readNonces :: "Chain \<Rightarrow> string \<Rightarrow> string \<Rightarrow> 'w \<Rightarrow> nat option \<times> 'w"
  signTypedData :: "Chain \<Rightarrow> string \<Rightarrow> TypedData \<Rightarrow> 'w \<Rightarrow> string option \<times> 'w"

definition fetchPermitNonce ::
  "'w Viem \<Rightarrow> Chain \<Rightarrow> string \<Rightarrow> string \<Rightarrow> 'w \<Rightarrow> nat option \<times> 'w" where
  "fetchPermitNonce V chain token owner w = readNonces V chain token owner w"

definition createEnvPrivateKeySignatureFn :: "'w Clock \<Rightarrow> 'w Viem \<Rightarrow> string \<Rightarrow> 'w SignatureFn" where
  "createEnvPrivateKeySignatureFn K V privateKey input w =
     (let chain = (case CHAINS (si_network input) of Some c \<Rightarrow> c | None \<Rightarrow> base);
          chainId = (case split (CHR '':'') (si_network input) of
                       _ # x # _ \<Rightarrow> parseInt x | _ \<Rightarrow> NaN);
          account = privateKeyToAccount V privateKey;
          deadline0 = Num (Date_now K w div 1000 + DEFAULT_VALIDITY_SECONDS);
          deadline = (case si_minDeadlineExclusive input of
                        Some m \<Rightarrow> if js_le deadline0 m then js_add m (Num 1) else deadline0
                      | None \<Rightarrow> deadline0)
      in case fetchPermitNonce V chain (si_asset input) account w of
           (None, w1) \<Rightarrow> (None, w1)
         | (Some nonceValue, w1) \<Rightarrow>
             (let nonce = natToString nonceValue
              in case signTypedData V chain account
                        \<lparr> td_name = si_tokenName input,
                          td_version = si_tokenVersion input,
                          td_chainId = chainId,
                          td_verifyingContract = si_asset input,
                          td_owner = account,
                          td_spender = si_facilitatorSigner input,
                          td_value = si_permitCap input,
                          td_nonce = nonce,
                          td_deadline = deadline \<rparr> w1 of
                   (None, w2) \<Rightarrow> (None, w2)
                 | (Some signature, w2) \<Rightarrow>
                     (Some \<lparr> so_signature = signature, so_nonce = nonce,
                             so_deadline = numberToString deadline,
                             so_accountAddress = account \<rparr>, w2)))"

section \<open>The fetch interceptor (client.ts)\<close>

subsection \<open>Reading parsed JSON\<close>

text \<open>
  \<open>v.k\<close> on a parsed JSON value: \<open>None\<close> is \<open>undefined\<close>. Only objects have the properties the
  program asks for. \<open>typeof v === 'object'\<close> together with \<open>v\<close> being truthy holds of objects
  and arrays.
\<close>

definition getProp :: "json \<Rightarrow> string \<Rightarrow> json option" where
  "getProp v k = (case v of JObj kvs \<Rightarrow> map_of kvs k | _ \<Rightarrow> None)"

definition isObject :: "json \<Rightarrow> bool" where
  "isObject v = (case v of JObj _ \<Rightarrow> True | JArr _ \<Rightarrow> True | _ \<Rightarrow> False)"

text \<open>\<open>typeof x === 'string' ? x : undefined\<close>\<close>

definition asString :: "json option \<Rightarrow> string option" where
  "asString x = (case x of Some (JStr s) \<Rightarrow> Some s | _ \<Rightarrow> None)"

text \<open>\<open>v?.[0]\<close>\<close>

definition index0 :: "json \<Rightarrow> json option" where
  "index0 v =
     (case v of
        JArr xs \<Rightarrow> (case xs of [] \<Rightarrow> None | x # _ \<Rightarrow> Some x)
      | JObj kvs \<Rightarrow> map_of kvs ''0''
      | JStr s \<Rightarrow> (case s of [] \<Rightarrow> None | c # _ \<Rightarrow> Some (JStr [c]))
      | _ \<Rightarrow> None)"

text \<open>Truthiness of a parsed value; a number literal is zero when all its mantissa digits are.\<close>

definition truthy :: "json \<Rightarrow> bool" where
  "truthy v =
     (case v of
        JNull \<Rightarrow> False
      | JBool b \<Rightarrow> b
      | JNum i \<Rightarrow> i \<noteq> 0
      | JNumLit s \<Rightarrow> (\<exists>c \<in> set (takeWhile (\<lambda>c. c \<noteq> CHR ''e'' \<and> c \<noteq> CHR ''E'') s). isDigit c \<and> c \<noteq> CHR ''0'')
      | JStr s \<Rightarrow> s \<noteq> []
      | JArr _ \<Rightarrow> True
      | JObj _ \<Rightarrow> True)"

subsection \<open>Error bodies\<close>

record ErrorResponse =
  er_code :: "string option"
  er_error :: "string option"
  er_message :: "string option"

definition normalizeErrorText :: "string option \<Rightarrow> string option \<Rightarrow> string" where
  "normalizeErrorText error message =
     toLowerCase ((case error of Some e \<Rightarrow> e | None \<Rightarrow> []) @ '' ''
                  @ (case message of Some m \<Rightarrow> m | None \<Rightarrow> []))"

definition isCapExhausted :: "ErrorResponse option \<Rightarrow> bool" where
  "isCapExhausted error =
     (case error of
        None \<Rightarrow> False
      | Some e \<Rightarrow>
          if er_code e = Some ''cap_exhausted'' then True
          else str_includes (normalizeErrorText (er_error e) (er_message e)) ''cap exhausted'')"

definition isSessionClosed :: "ErrorResponse option \<Rightarrow> bool" where
  "isSessionClosed error =
     (case error of
        None \<Rightarrow> False
      | Some e \<Rightarrow>
          if er_code e = Some ''session_closed'' then True
          else str_includes (normalizeErrorText (er_error e) (er_message e)) ''session closed'')"

definition isSettlementBlocked :: "ErrorResponse option \<Rightarrow> bool" where
  "isSettlementBlocked error =
     (case error of
        None \<Rightarrow> False
      | Some e \<Rightarrow>
          if er_code e = Some ''settlement_blocked'' then True
          else str_includes (normalizeErrorText (er_error e) (er_message e)) ''settlement blocked''
               \<or> str_includes (normalizeErrorText (er_error e) (er_message e))
                    ''blocked after previous settlement'')"

definition shouldInvalidatePermit :: "ErrorResponse option \<Rightarrow> bool" where
  "shouldInvalidatePermit error =
     (isCapExhausted error \<or> isSessionClosed error \<or> isSettlementBlocked error)"

definition parseErrorResponse :: "json \<Rightarrow> ErrorResponse option" where
  "parseErrorResponse data =
     (if \<not> isObject data then None
      else if asString (getProp data ''code'') \<noteq> None \<or> asString (getProp data ''error'') \<noteq> None then
        Some \<lparr> er_code = asString (getProp data ''code''),
               er_error = (case asString (getProp data ''error'') of
                             Some e \<Rightarrow> Some e
                           | None \<Rightarrow> asString (getProp data ''message'')),
               er_message = asString (getProp data ''message'') \<rparr>
      else
        (case getProp data ''error'' of
           None \<Rightarrow> None
         | Some nested \<Rightarrow>
             if \<not> isObject nested then None
             else
               Some \<lparr> er_code = (case asString (getProp nested ''code'') of
                                   Some c \<Rightarrow> Some c
                                 | None \<Rightarrow> asString (getProp nested ''type'')),
                      er_error = (case asString (getProp nested ''message'') of
                                    Some m \<Rightarrow> Some m
                                  | None \<Rightarrow> asString (getProp nested ''error'')),
                      er_message = asString (getProp nested ''message'') \<rparr>))"

definition extractErrorResponse :: "Response \<Rightarrow> ErrorResponse option" where
  "extractErrorResponse response =
     (case resp_json response of None \<Rightarrow> None | Some data \<Rightarrow> parseErrorResponse data)"

subsection \<open>Payment requirements\<close>

text \<open>
  The interfaces \<open>PaymentRequiredExtra\<close> and \<open>PaymentRequirement\<close> declare every field an optional
  string, and the program reads them as such. The reading of a parsed value at these types:
  a field that is absent, or holds no string, is \<open>undefined\<close>. (A challenge in which such a
  field holds a truthy value of another type is outside the declared interface.)
\<close>

record PaymentRequiredExtra =
  pre_name :: "string option"
  pre_version :: "string option"
  pre_maxAmount :: "string option"
  pre_max_amount :: "string option"
  pre_maxAmountRequired :: "string option"
  pre_max_amount_required :: "string option"

record PaymentRequirement =
  pr_scheme :: "string option"
  pr_network :: "string option"
  pr_asset :: "string option"
  pr_amount :: "string option"
  pr_payTo :: "string option"
  pr_pay_to :: "string option"
  pr_extra :: "PaymentRequiredExtra option"

definition asPaymentRequiredExtra :: "json \<Rightarrow> PaymentRequiredExtra" where
  "asPaymentRequiredExtra v =
     \<lparr> pre_name = asString (getProp v ''name''),
       pre_version = asString (getProp v ''version''),
       pre_maxAmount = asString (getProp v ''maxAmount''),
       pre_max_amount = asString (getProp v ''max_amount''),
       pre_maxAmountRequired = asString (getProp v ''maxAmountRequired''),
       pre_max_amount_required = asString (getProp v ''max_amount_required'') \<rparr>"

definition asPaymentRequirement :: "json \<Rightarrow> PaymentRequirement" where
  "asPaymentRequirement v =
     \<lparr> pr_scheme = asString (getProp v ''scheme''),
       pr_network = asString (getProp v ''network''),
       pr_asset = asString (getProp v ''asset''),
       pr_amount = asString (getProp v ''amount''),
       pr_payTo = asString (getProp v ''payTo''),
       pr_pay_to = asString (getProp v ''pay_to''),
       pr_extra = (case getProp v ''extra'' of
                     None \<Rightarrow> None
                   | Some e \<Rightarrow> if e = JNull then None else Some (asPaymentRequiredExtra e)) \<rparr>"

definition decodePaymentRequiredHeader :: "string \<Rightarrow> json option" where
  "decodePaymentRequiredHeader v =
     (case JSON_parse (utf8_decode (base64_decode v)) of
        None \<Rightarrow> None
      | Some parsed \<Rightarrow> if isObject parsed then Some parsed else None)"

text \<open>
  \<open>decoded?.accepts?.[0]\<close>, read as a \<open>PaymentRequirement\<close>. Every use of the result tests its
  truthiness first, so a falsy first element is the same as none.
\<close>

definition firstRequirement :: "json option \<Rightarrow> PaymentRequirement option" where
  "firstRequirement decoded =
     (case Option.bind (Option.bind decoded (\<lambda>d. getProp d ''accepts'')) index0 of
        None \<Rightarrow> None
      | Some r \<Rightarrow> if truthy r then Some (asPaymentRequirement r) else None)"

definition getRequirementPayTo :: "PaymentRequirement option \<Rightarrow> string option" where
  "getRequirementPayTo requirement =
     (case requirement of
        None \<Rightarrow> None
      | Some r \<Rightarrow> opt_or_opt (opt_or_opt (pr_payTo r) (pr_pay_to r)) None)"

definition getRequirementMaxAmountRequired :: "PaymentRequirement option \<Rightarrow> string option" where
  "getRequirementMaxAmountRequired requirement =
     (case requirement of
        None \<Rightarrow> None
      | Some r \<Rightarrow>
          opt_or_opt
            (opt_or_opt
              (opt_or_opt
                (opt_or_opt (Option.bind (pr_extra r) pre_maxAmountRequired)
                            (Option.bind (pr_extra r) pre_max_amount_required))
                (Option.bind (pr_extra r) pre_maxAmount))
              (Option.bind (pr_extra r) pre_max_amount))
            (pr_amount r))"

definition applyPaymentRequirement :: "RouterConfig \<Rightarrow> PaymentRequirement option \<Rightarrow> RouterConfig" where
  "applyPaymentRequirement c requirement =
     (case requirement of
        None \<Rightarrow> c
      | Some r \<Rightarrow>
          (let payTo = opt_or (getRequirementPayTo requirement) (cfg_payTo c)
           in c\<lparr> cfg_network := opt_or (pr_network r) (cfg_network c),
                 cfg_asset := opt_or (pr_asset r) (cfg_asset c),
                 cfg_payTo := payTo,
                 cfg_facilitatorSigner := str_or payTo (cfg_facilitatorSigner c),
                 cfg_tokenName := opt_or (Option.bind (pr_extra r) pre_name) (cfg_tokenName c),
                 cfg_tokenVersion := opt_or (Option.bind (pr_extra r) pre_version) (cfg_tokenVersion c) \<rparr>))"

subsection \<open>Router config\<close>

definition DEFAULT_USDC_BASE :: string where
  "DEFAULT_USDC_BASE = ''0x833589fCD6eDb6E08f4c7C32D4f71b54bdA02913''"

text \<open>\<open>None\<close> is the \<open>TypeError\<close> of reading \<open>data.networks\<close> when \<open>data\<close> is \<open>null\<close>.\<close>

definition parseRouterConfigResponse :: "json \<Rightarrow> RouterConfig option" where
  "parseRouterConfigResponse data =
     (if data = JNull then None
      else
        (let network = Option.bind (getProp data ''networks'') index0;
             payTo = opt_or (asString (Option.bind network (\<lambda>n. getProp n ''pay_to''))) []
         in Some
              \<lparr> cfg_network = opt_or (asString (Option.bind network (\<lambda>n. getProp n ''network_id''))) ''eip155:8453'',
                cfg_asset = opt_or (asString (Option.bind (Option.bind network (\<lambda>n. getProp n ''asset''))
                                                (\<lambda>a. getProp a ''address''))) DEFAULT_USDC_BASE,
                cfg_payTo = payTo,
                cfg_facilitatorSigner = payTo,
                cfg_tokenName = opt_or (asString (Option.bind (getProp data ''eip712_config'')
                                                    (\<lambda>e. getProp e ''domain_name''))) ''USD Coin'',
                cfg_tokenVersion = opt_or (asString (Option.bind (getProp data ''eip712_config'')
                                                       (\<lambda>e. getProp e ''domain_version''))) ''2'',
                cfg_paymentHeader = Some (opt_or (asString (getProp data ''payment_header''))
                                            ''PAYMENT-SIGNATURE'') \<rparr>))"

text \<open>The transport: \<open>baseFetch(requestInfo, requestInit)\<close>; \<open>None\<close> is a rejected promise.\<close>

type_synonym 'w Fetch = "string \<Rightarrow> RequestInit option \<Rightarrow> 'w \<Rightarrow> Response option \<times> 'w"

definition ok :: "Response \<Rightarrow> bool" where
  "ok response = (200 \<le> status response \<and> status response \<le> 299)"

text \<open>\<open>fetchRouterConfig\<close>: \<open>None\<close> when it throws (transport failure, status, body).\<close>

definition fetchRouterConfig :: "'w Fetch \<Rightarrow> string \<Rightarrow> 'w \<Rightarrow> RouterConfig option \<times> 'w \<times> event list" where
  "fetchRouterConfig baseFetch routerUrl w =
     (case baseFetch (routerUrl @ ''/v1/config'') None w of
        (None, w') \<Rightarrow> (None, w', [FetchCall (routerUrl @ ''/v1/config'') None])
      | (Some response, w') \<Rightarrow>
          (if \<not> ok response then None
           else (case resp_json response of
                   None \<Rightarrow> None
                 | Some data \<Rightarrow> parseRouterConfigResponse data),
           w', [FetchCall (routerUrl @ ''/v1/config'') None]))"

definition getDefaultConfig :: "string \<Rightarrow> RouterConfig" where
  "getDefaultConfig network =
     \<lparr> cfg_network = network,
       cfg_asset = DEFAULT_USDC_BASE,
       cfg_payTo = [],
       cfg_facilitatorSigner = [],
       cfg_tokenName = ''USD Coin'',
       cfg_tokenVersion = ''2'',
       cfg_paymentHeader = Some ''PAYMENT-SIGNATURE'' \<rparr>"

subsection \<open>createX402Fetch\<close>

record 'w X402FetchInput =
  in_routerUrl :: string
  in_permitCap :: string
  in_signatureFn :: "'w SignatureFn option"
  in_baseFetch :: "'w Fetch"
  in_initialConfig :: "RouterConfig option"
  in_network :: "string option"
  in_staticHeaderName :: "string option"
  in_staticHeaderValue :: "string option"

text \<open>
  \<open>new URL(url)\<close> and \<open>new URL(url, base)\<close> are the platform's; of the result the program reads
  \<open>origin\<close> and \<open>pathname\<close>. \<open>None\<close> is the \<open>TypeError\<close> of an invalid URL.
\<close>

record URL =
  origin :: string
  pathname :: string

type_synonym URLParser = "string \<Rightarrow> string option \<Rightarrow> URL option"

datatype error = InvalidURL | SignatureFnRequired | SignatureRejected | FetchRejected | NullFactory

text \<open>
  The closure of \<open>createX402Fetch\<close>. The two memoised promises are held by their settled
  values (\<open>configPromise\<close> cannot reject: its failure is caught into the default config).
\<close>

record 'w Interceptor =
  ic_input :: "'w X402FetchInput"
  routerOrigin :: string
  routerBase :: string
  configPromise :: "RouterConfig option"
  headerFactoryPromise :: "'w HeaderFactory option"

text \<open>\<open>routerUrl.replace(/\/+$/, '')\<close>\<close>

definition stripTrailingSlashes :: "string \<Rightarrow> string" where
  "stripTrailingSlashes s = rev (dropWhile (\<lambda>c. c = CHR ''/'') (rev s))"

definition createX402Fetch :: "URLParser \<Rightarrow> 'w X402FetchInput \<Rightarrow> 'w Interceptor option" where
  "createX402Fetch U input =
     (case U (in_routerUrl input) None of
        None \<Rightarrow> None
      | Some u \<Rightarrow>
          Some \<lparr> ic_input = input,
                 routerOrigin = origin u,
                 routerBase = stripTrailingSlashes (in_routerUrl input),
                 configPromise = in_initialConfig input,
                 headerFactoryPromise = None \<rparr>)"

text \<open>The inner \<open>getConfig\<close> of \<open>createX402Fetch\<close>.\<close>

definition getRouterConfig ::
  "'w Interceptor \<Rightarrow> 'w \<Rightarrow> RouterConfig \<times> 'w Interceptor \<times> 'w \<times> event list" where
  "getRouterConfig ic w =
     (case configPromise ic of
        Some c \<Rightarrow> (c, ic, w, [])
      | None \<Rightarrow>
          (case fetchRouterConfig (in_baseFetch (ic_input ic)) (routerBase ic) w of
             (r, w', evs) \<Rightarrow>
               (let c = (case r of
                           Some c \<Rightarrow> c
                         | None \<Rightarrow> getDefaultConfig (opt_or (in_network (ic_input ic)) ''eip155:8453''))
                in (c, ic\<lparr>configPromise := Some c\<rparr>, w', evs))))"

definition getFactory ::
  "'w Interceptor \<Rightarrow> 'w \<Rightarrow> (error + 'w HeaderFactory) \<times> 'w Interceptor \<times> 'w \<times> event list" where
  "getFactory ic w =
     (case in_signatureFn (ic_input ic) of
        None \<Rightarrow> (Inl SignatureFnRequired, ic, w, [])
      | Some signatureFn \<Rightarrow>
          (case headerFactoryPromise ic of
             Some f \<Rightarrow> (Inr f, ic, w, [])
           | None \<Rightarrow>
               (case getRouterConfig ic w of
                  (c, ic1, w1, evs) \<Rightarrow>
                    (let f = createPaymentHeaderFactory
                               \<lparr> fi_config = c,
                                 fi_permitCap = in_permitCap (ic_input ic),
                                 fi_signatureFn = signatureFn \<rparr>
                     in (Inr f, ic1\<lparr>headerFactoryPromise := Some f\<rparr>, w1, evs)))))"

text \<open>A string that is set and not empty (\<open>staticHeaderValue ? ... : ...\<close>).\<close>

definition truthyString :: "string option \<Rightarrow> string option" where
  "truthyString x = (case x of Some s \<Rightarrow> if s \<noteq> [] then Some s else None | None \<Rightarrow> None)"

text \<open>
  \<open>const factory = staticHeaderValue ? null : await getFactory()\<close>: the error thrown, if any;
  the factory itself stays in the closure.
\<close>

definition prepareFactory ::
  "'w Interceptor \<Rightarrow> 'w \<Rightarrow> error option \<times> 'w Interceptor \<times> 'w \<times> event list" where
  "prepareFactory ic w =
     (case truthyString (in_staticHeaderValue (ic_input ic)) of
        Some _ \<Rightarrow> (None, ic, w, [])
      | None \<Rightarrow>
          (case getFactory ic w of
             (Inl e, ic0, w0, evs0) \<Rightarrow> (Some e, ic0, w0, evs0)
           | (Inr _, ic0, w0, evs0) \<Rightarrow> (None, ic0, w0, evs0)))"

text \<open>\<open>{ ...requestInit, headers }\<close>\<close>

definition withHeaders :: "RequestInit option \<Rightarrow> Headers \<Rightarrow> RequestInit" where
  "withHeaders requestInit headers =
     \<lparr> ri_headers = Some headers,
       ri_rest = (case requestInit of Some i \<Rightarrow> ri_rest i | None \<Rightarrow> []) \<rparr>"

text \<open>
  \<open>sendWithPermit\<close>, the inner function of \<open>wrappedFetch\<close>. The local \<open>factory\<close> is the factory
  held by the closure when static-header mode is off.
\<close>

definition sendWithPermit ::
  "'w Clock \<Rightarrow> string \<Rightarrow> RequestInit option \<Rightarrow> string option \<Rightarrow> jsnum option
     \<Rightarrow> 'w Interceptor \<Rightarrow> 'w
     \<Rightarrow> (error + Response \<times> jsnum option) \<times> 'w Interceptor \<times> 'w \<times> event list" where
  "sendWithPermit K requestInfo requestInit capOverrideArg minDeadlineArg ic w =
     (let headers = (case Option.bind requestInit ri_headers of Some h \<Rightarrow> h | None \<Rightarrow> Map.empty);
          staticHeaderName = opt_or (in_staticHeaderName (ic_input ic)) ''PAYMENT-SIGNATURE''
      in case truthyString (in_staticHeaderValue (ic_input ic)) of
           Some staticHeaderValue \<Rightarrow>
             (let init = withHeaders requestInit (Headers_set staticHeaderName staticHeaderValue headers)
              in case in_baseFetch (ic_input ic) requestInfo (Some init) w of
                   (None, w') \<Rightarrow> (Inl FetchRejected, ic, w', [FetchCall requestInfo (Some init)])
                 | (Some response, w') \<Rightarrow>
                     (Inr (response, None), ic, w', [FetchCall requestInfo (Some init)]))
         | None \<Rightarrow>
             (case headerFactoryPromise ic of
                None \<Rightarrow> (Inl NullFactory, ic, w, [])
              | Some f \<Rightarrow>
                  (case getHeader K (Some \<lparr> capOverride = capOverrideArg,
                                            minDeadlineExclusive = minDeadlineArg \<rparr>) f w of
                     (None, f1, w1, evs) \<Rightarrow>
                       (Inl SignatureRejected, ic\<lparr>headerFactoryPromise := Some f1\<rparr>, w1, evs)
                   | (Some header, f1, w1, evs) \<Rightarrow>
                       (let init = withHeaders requestInit
                                     (Headers_set (hr_headerName header) (hr_headerValue header) headers)
                        in case in_baseFetch (ic_input ic) requestInfo (Some init) w1 of
                             (None, w2) \<Rightarrow>
                               (Inl FetchRejected, ic\<lparr>headerFactoryPromise := Some f1\<rparr>, w2,
                                evs @ [FetchCall requestInfo (Some init)])
                           | (Some response, w2) \<Rightarrow>
                               (Inr (response, Some (hr_deadline header)),
                                ic\<lparr>headerFactoryPromise := Some f1\<rparr>, w2,
                                evs @ [FetchCall requestInfo (Some init)])))))"

text \<open>
  The \<open>requirement\<close> of \<open>wrappedFetch\<close>: the \<open>PAYMENT-REQUIRED\<close> header of the response, decoded
  when it is present and not empty, and the first element of its \<open>accepts\<close>.
\<close>

definition challengeRequirement :: "Response \<Rightarrow> PaymentRequirement option" where
  "challengeRequirement response =
     (let paymentRequired = Headers_get ''PAYMENT-REQUIRED'' (resp_headers response);
          decoded = (case truthyString paymentRequired of
                       Some v \<Rightarrow> decodePaymentRequiredHeader v
                     | None \<Rightarrow> None)
      in firstRequirement decoded)"

text \<open>
  \<open>wrappedFetch\<close> from the line after the status test: what it does with an initial
  response whose status is 401 or 402.
\<close>

definition onPaymentChallenge ::
  "'w Clock \<Rightarrow> string \<Rightarrow> RequestInit option \<Rightarrow> Response \<Rightarrow> jsnum option
     \<Rightarrow> 'w Interceptor \<Rightarrow> 'w
     \<Rightarrow> (error + Response) \<times> 'w Interceptor \<times> 'w \<times> event list" where
  "onPaymentChallenge K requestInfo requestInit initialResponse initialDeadline ic w =
     (let error = extractErrorResponse initialResponse;
          requirement = challengeRequirement initialResponse;
          factory = (case truthyString (in_staticHeaderValue (ic_input ic)) of
                       Some _ \<Rightarrow> None
                     | None \<Rightarrow> headerFactoryPromise ic);
          ic1 = (case factory of
                   Some f \<Rightarrow>
                     if requirement \<noteq> None
                     then ic\<lparr>headerFactoryPromise :=
                              Some (updateConfig (applyPaymentRequirement (getConfig f) requirement) f)\<rparr>
                     else ic
                 | None \<Rightarrow> ic)
      in if error = None \<or> \<not> shouldInvalidatePermit error \<or> factory = None
         then (Inr initialResponse, ic1, w, [])
         else
           (let ic2 = ic1\<lparr>headerFactoryPromise := map_option invalidate (headerFactoryPromise ic1)\<rparr>;
                maxAmount = getRequirementMaxAmountRequired requirement
            in case sendWithPermit K requestInfo requestInit maxAmount initialDeadline ic2 w of
                 (Inl e, ic3, w3, evs) \<Rightarrow> (Inl e, ic3, w3, evs)
               | (Inr (response, _), ic3, w3, evs) \<Rightarrow> (Inr response, ic3, w3, evs)))"

text \<open>The two parses of the request URL.\<close>

definition parseRequestURL :: "URLParser \<Rightarrow> string \<Rightarrow> string \<Rightarrow> URL option" where
  "parseRequestURL U rawUrl baseUrl =
     (case U rawUrl None of Some u \<Rightarrow> Some u | None \<Rightarrow> U rawUrl (Some baseUrl))"

text \<open>The test of the first \<open>if\<close> of \<open>wrappedFetch\<close>.\<close>

definition passThrough :: "'w Interceptor \<Rightarrow> URL \<Rightarrow> bool" where
  "passThrough ic parsed =
     (let isConfigPath = endsWith (pathname parsed) ''/v1/config'' \<or> endsWith (pathname parsed) ''/config'';
          isModelsPath = endsWith (pathname parsed) ''/v1/models'' \<or> endsWith (pathname parsed) ''/models'';
          isRouterRequest = (origin parsed = routerOrigin ic)
      in \<not> isRouterRequest \<or> isConfigPath \<or> isModelsPath)"

text \<open>
  \<open>wrappedFetch\<close>. A request is given by its URL text (\<open>requestInfo\<close>) and its \<open>requestInit\<close>.
  The result is the response or the error thrown, the closure and the world after the call,
  and the outside calls made, in order.
\<close>

definition wrappedFetch ::
  "'w Clock \<Rightarrow> URLParser \<Rightarrow> string \<Rightarrow> RequestInit option \<Rightarrow> 'w Interceptor \<Rightarrow> 'w
     \<Rightarrow> (error + Response) \<times> 'w Interceptor \<times> 'w \<times> event list" where
  "wrappedFetch K U requestInfo requestInit ic w =
     (case parseRequestURL U requestInfo (routerOrigin ic) of
        None \<Rightarrow> (Inl InvalidURL, ic, w, [])
      | Some parsed \<Rightarrow>
          if passThrough ic parsed then
            (case in_baseFetch (ic_input ic) requestInfo requestInit w of
               (None, w') \<Rightarrow> (Inl FetchRejected, ic, w', [FetchCall requestInfo requestInit])
             | (Some response, w') \<Rightarrow> (Inr response, ic, w', [FetchCall requestInfo requestInit]))
          else
            (case prepareFactory ic w of
               (Some e, ic0, w0, evs0) \<Rightarrow> (Inl e, ic0, w0, evs0)
             | (None, ic0, w0, evs0) \<Rightarrow>
                 (case sendWithPermit K requestInfo requestInit None None ic0 w0 of
                    (Inl e, ic1, w1, evs1) \<Rightarrow> (Inl e, ic1, w1, evs0 @ evs1)
                  | (Inr (response, deadline), ic1, w1, evs1) \<Rightarrow>
                      if status response \<noteq> 401 \<and> status response \<noteq> 402
                      then (Inr response, ic1, w1, evs0 @ evs1)
                      else
                        (case onPaymentChallenge K requestInfo requestInit response deadline ic1 w1 of
                           (res, ic2, w2, evs2) \<Rightarrow> (res, ic2, w2, evs0 @ evs1 @ evs2)))))"

subsection \<open>Notions used to state the interceptor's properties\<close>

text \<open>The headers of the caller's \<open>requestInit\<close>, as \<open>new Headers(requestInit?.headers)\<close> copies them.\<close>

definition callerHeaders :: "RequestInit option \<Rightarrow> Headers" where
  "callerHeaders requestInit = (case Option.bind requestInit ri_headers of Some h \<Rightarrow> h | None \<Rightarrow> Map.empty)"


text \<open>The factory as the challenge leaves it before the retry decision.\<close>

definition challengedFactory :: "Response \<Rightarrow> 'w HeaderFactory \<Rightarrow> 'w HeaderFactory" where
  "challengedFactory r f = updateConfig (applyPaymentRequirement (getConfig f) (challengeRequirement r)) f"







text \<open>
  A signature respects the \<open>minDeadlineExclusive\<close> it was asked for when its deadline parses
  to a number strictly greater.
\<close>

definition respectsMinDeadline :: "SignatureInput \<Rightarrow> SignatureOutput \<Rightarrow> bool" where
  "respectsMinDeadline input out =
     (case si_minDeadlineExclusive input of
        Some (Num m) \<Rightarrow> (case parseInt (so_deadline out) of Num n \<Rightarrow> m < n | NaN \<Rightarrow> False)
      | _ \<Rightarrow> True)"



section \<open>Fixtures\<close>

text \<open>
  The values of the repository's tests: a scripted signing function (each call resolves to
  the next scripted output, as \<open>mockResolvedValueOnce\<close> does; an exhausted script rejects),
  a scripted transport, and a clock that only the test moves.
\<close>

record World =
  clock :: int
  signatures :: "SignatureOutput option list"
  responses :: "Response option list"

definition mockClock :: "World Clock" where
  "mockClock = \<lparr> Date_now = clock \<rparr>"

definition mockSignatureFn :: "World SignatureFn" where
  "mockSignatureFn input w =
     (case signatures w of [] \<Rightarrow> (None, w) | s # rest \<Rightarrow> (s, w\<lparr>signatures := rest\<rparr>))"

definition baseConfig :: RouterConfig where
  "baseConfig =
     \<lparr> cfg_network = ''eip155:8453'',
       cfg_asset = ''0x833589fCD6eDb6E08f4c7C32D4f71b54bdA02913'',
       cfg_payTo = ''0x1234567890abcdef1234567890abcdef12345678'',
       cfg_facilitatorSigner = ''0x1234567890abcdef1234567890abcdef12345678'',
       cfg_tokenName = ''USD Coin'',
       cfg_tokenVersion = ''2'',
       cfg_paymentHeader = Some ''PAYMENT-SIGNATURE'' \<rparr>"

definition mockSignature :: "string \<Rightarrow> string \<Rightarrow> string \<Rightarrow> SignatureOutput" where
  "mockSignature sg nonce deadline =
     \<lparr> so_signature = sg, so_nonce = nonce, so_deadline = deadline,
       so_accountAddress = ''0x9999999999999999999999999999999999999999'' \<rparr>"

definition testFactory :: "World HeaderFactory" where
  "testFactory = createPaymentHeaderFactory
     \<lparr> fi_config = baseConfig, fi_permitCap = ''1000000'', fi_signatureFn = mockSignatureFn \<rparr>"

definition testWorld :: World where
  "testWorld = \<lparr> clock = 5000,
     signatures = [Some (mockSignature ''0xabc123'' ''7'' ''600''), Some (mockSignature ''0xdef456'' ''8'' ''601'')],
     responses = [] \<rparr>"

definition cachedFactory :: "World HeaderFactory" where
  "cachedFactory = testFactory\<lparr>cached := Some
     \<lparr> ch_value = ''cached-header'', ch_deadline = Num 600, ch_maxValue = ''1000000'',
       ch_network = cfg_network baseConfig, ch_asset = cfg_asset baseConfig,
       ch_payTo = cfg_payTo baseConfig \<rparr>\<rparr>"

definition refreshOptions :: GetHeaderOptions where
  "refreshOptions = \<lparr> capOverride = None, minDeadlineExclusive = Some (Num 600) \<rparr>"

definition emptyCapOptions :: GetHeaderOptions where
  "emptyCapOptions = \<lparr> capOverride = Some [], minDeadlineExclusive = None \<rparr>"

definition otherSigner :: RouterConfig where
  "otherSigner = baseConfig\<lparr> cfg_facilitatorSigner := ''0xfeed'', cfg_tokenName := ''Other'',
     cfg_tokenVersion := ''3'', cfg_paymentHeader := Some ''X-PAYMENT'' \<rparr>"

definition serverCapOptions :: GetHeaderOptions where
  "serverCapOptions = \<lparr> capOverride = Some ''500000'', minDeadlineExclusive = None \<rparr>"




























text \<open>
  What \<open>getHeader\<close> hands to \<open>buildPaymentPayload\<close> in the test
  \<open>builds x402 header with injected signature function\<close> (the account address is the one of
  the client's tests).
\<close>

definition builtInput :: BuildInput where
  "builtInput =
     \<lparr> bi_config = baseConfig,
       bi_accountAddress = ''0x9999999999999999999999999999999999999999'',
       bi_permitCap = ''1000000'', bi_signature = ''0xabc123'', bi_nonce = ''7'',
       bi_deadline = ''1700000123'' \<rparr>"

section \<open>Verified properties\<close>

subsection \<open>How getHeader runs\<close>

lemma getHeader_hit:
  "cacheHit K f options w = Some c \<Longrightarrow>
   getHeader K options f w =
     (Some \<lparr> hr_headerName = headerName (config f), hr_headerValue = ch_value c,
              hr_deadline = ch_deadline c \<rparr>, f, w, [])"
  by (simp add: getHeader_def)

lemma getHeader_miss_rejected:
  "cacheHit K f options w = None \<Longrightarrow> hf_signatureFn f (signatureInput f options) w = (None, w') \<Longrightarrow>
   getHeader K options f w = (None, f, w', [SignatureCall (signatureInput f options)])"
  by (simp add: getHeader_def Let_def)

lemma getHeader_miss_signed:
  "cacheHit K f options w = None \<Longrightarrow> hf_signatureFn f (signatureInput f options) w = (Some s, w') \<Longrightarrow>
   getHeader K options f w =
     (Some \<lparr> hr_headerName = headerName (config f),
              hr_headerValue = signedHeader f options s,
              hr_deadline = parseInt (so_deadline s) \<rparr>,
      f\<lparr>cached := Some
          \<lparr> ch_value = signedHeader f options s,
            ch_deadline = parseInt (so_deadline s),
            ch_maxValue = effectiveCap f options,
            ch_network = cfg_network (config f),
            ch_asset = cfg_asset (config f),
            ch_payTo = cfg_payTo (config f) \<rparr>\<rparr>,
      w', [SignatureCall (signatureInput f options)])"
  by (simp add: getHeader_def Let_def signedHeader_def)

lemma getHeader_events:
  "getHeader K options f w = (r, f', w', evs) \<Longrightarrow>
   (cacheHit K f options w \<noteq> None \<and> evs = []) \<or>
   (cacheHit K f options w = None \<and> evs = [SignatureCall (signatureInput f options)])"
  by (cases "cacheHit K f options w"; cases "hf_signatureFn f (signatureInput f options) w";
      cases "fst (hf_signatureFn f (signatureInput f options) w)")
     (auto simp: getHeader_hit getHeader_miss_rejected getHeader_miss_signed)

lemma isNearDeadline_Num:
  "isNearDeadline K w (Num d) \<longleftrightarrow> d - Date_now K w div 1000 \<le> 60"
  by (simp add: isNearDeadline_def PRE_INVALIDATE_WINDOW_SECONDS_def)

lemma cacheHit_iff:
  "cacheHit K f options w = Some c \<longleftrightarrow>
     cached f = Some c \<and> Option.bind options minDeadlineExclusive = None
     \<and> ch_maxValue c = effectiveCap f options
     \<and> ch_network c = cfg_network (config f) \<and> ch_asset c = cfg_asset (config f)
     \<and> ch_payTo c = cfg_payTo (config f) \<and> \<not> isNearDeadline K w (ch_deadline c)"
  by (auto simp: cacheHit_def forceRefresh_def split: option.splits)

lemma effectiveCap_frame [simp]:
  "effectiveCap (f\<lparr>cached := x\<rparr>) options = effectiveCap f options"
  "effectiveCap (updateConfig c' f) options = effectiveCap f options"
  by (simp_all add: effectiveCap_def updateConfig_def)

subsection \<open>The header factory\<close>



lemma parseInt_600: "parseInt ''600'' = Num 600"
  by (simp add: parseInt_def isWhiteSpace_def isDigit_def digitsValue_def digitValue_def)


text \<open>
  C4. A call of \<open>getHeader\<close> with \<open>minDeadlineExclusive\<close> set calls the signing function once,
  whatever the cache holds, passes it that \<open>minDeadlineExclusive\<close>, and returns what the
  signature yields.
\<close>

theorem forced_refresh_signs:
  fixes K :: "'w Clock" and f :: "'w HeaderFactory"
  assumes "Option.bind options minDeadlineExclusive = Some m"
  shows "\<exists>r f' w'. getHeader K options f w = (r, f', w', [SignatureCall (signatureInput f options)])
           \<and> si_minDeadlineExclusive (signatureInput f options) = Some m
           \<and> (r, w') = (map_option (\<lambda>s. \<lparr> hr_headerName = headerName (config f),
                             hr_headerValue = signedHeader f options s,
                             hr_deadline = parseInt (so_deadline s) \<rparr>)
                          (fst (hf_signatureFn f (signatureInput f options) w)),
                        snd (hf_signatureFn f (signatureInput f options) w))"
proof -
  have miss: "cacheHit K f options w = None"
    using assms by (simp add: cacheHit_def forceRefresh_def split: option.splits)
  show ?thesis
  proof (cases "hf_signatureFn f (signatureInput f options) w")
    case (Pair so w')
    then show ?thesis
      using assms getHeader_miss_rejected [OF miss, of w'] getHeader_miss_signed [OF miss, of _ w']
      by (cases so) (auto simp: signatureInput_def)
  qed
qed

lemma cachedFactory_valid:
  "cacheHit mockClock cachedFactory None testWorld \<noteq> None"
  by (simp add: cacheHit_def cachedFactory_def testFactory_def createPaymentHeaderFactory_def
      forceRefresh_def effectiveCap_def opt_or_def isNearDeadline_def mockClock_def testWorld_def
      PRE_INVALIDATE_WINDOW_SECONDS_def)

text \<open>
  C4, witness: a factory whose cached entry is valid (a call without options would return
  it) signs again when \<open>minDeadlineExclusive\<close> is given.
\<close>

theorem forced_refresh_signs_witness:
  "Option.bind (Some refreshOptions) minDeadlineExclusive = Some (Num 600)
   \<and> cacheHit mockClock cachedFactory None testWorld \<noteq> None
   \<and> (\<exists>r f' w'. getHeader mockClock (Some refreshOptions) cachedFactory testWorld
          = (r, f', w', [SignatureCall (signatureInput cachedFactory (Some refreshOptions))]))"
proof -
  have m: "Option.bind (Some refreshOptions) minDeadlineExclusive = Some (Num 600)"
    by (simp add: refreshOptions_def)
  from forced_refresh_signs [OF m, of mockClock cachedFactory testWorld] m cachedFactory_valid
  show ?thesis by blast
qed

text \<open>
  C8 as stated fails: with \<open>capOverride\<close> the empty string, the signing function is handed the
  configured \<open>permitCap\<close>, not the empty string (\<open>||\<close>, not \<open>??\<close>).
\<close>

theorem effective_cap_counterexample:
  "Option.bind (Some emptyCapOptions) capOverride = Some []
   \<and> snd (snd (snd (getHeader mockClock (Some emptyCapOptions) testFactory testWorld)))
       = [SignatureCall (signatureInput testFactory (Some emptyCapOptions))]
   \<and> si_permitCap (signatureInput testFactory (Some emptyCapOptions)) = ''1000000''
   \<and> si_permitCap (signatureInput testFactory (Some emptyCapOptions)) \<noteq> []"
proof -
  have miss: "cacheHit mockClock testFactory (Some emptyCapOptions) testWorld = None"
    by (simp add: cacheHit_def testFactory_def createPaymentHeaderFactory_def)
  obtain r f' w' evs where
    call: "getHeader mockClock (Some emptyCapOptions) testFactory testWorld = (r, f', w', evs)"
    by (metis prod_cases4)
  from getHeader_events [OF call] miss
  have "evs = [SignatureCall (signatureInput testFactory (Some emptyCapOptions))]" by simp
  moreover have "si_permitCap (signatureInput testFactory (Some emptyCapOptions)) = ''1000000''"
    by (simp add: signatureInput_def effectiveCap_def opt_or_def str_or_def emptyCapOptions_def
        testFactory_def createPaymentHeaderFactory_def)
  moreover have "Option.bind (Some emptyCapOptions) capOverride = Some []"
    by (simp add: emptyCapOptions_def)
  ultimately show ?thesis
    by (simp add: call)
qed

text \<open>
  C8, amended. Whenever \<open>getHeader\<close> signs, the \<open>permitCap\<close> handed to the signing function
  is \<open>capOverride\<close> if that is given and not empty, and the factory's configured \<open>permitCap\<close>
  otherwise; the payload of the returned header carries the same value as
  \<open>authorization.value\<close>.
\<close>

theorem effective_cap:
  fixes K :: "'w Clock" and f :: "'w HeaderFactory"
  assumes call: "getHeader K options f w = (r, f', w', evs)" and signs: "evs \<noteq> []"
  shows "(\<exists>input. evs = [SignatureCall input]
            \<and> si_permitCap input = capOrDefault (Option.bind options capOverride) (hf_permitCap f))
         \<and> (case r of
               None \<Rightarrow> True
             | Some h \<Rightarrow>
                 (\<exists>p. hr_headerValue h = encodePaymentPayload p
                    \<and> auth_value (pl_authorization (pp_payload p))
                        = capOrDefault (Option.bind options capOverride) (hf_permitCap f)))"
proof -
  let ?cap = "capOrDefault (Option.bind options capOverride) (hf_permitCap f)"
  have cap: "effectiveCap f options = ?cap"
    by (simp add: effectiveCap_def capOrDefault_def opt_or_def str_or_def split: option.splits)
  from getHeader_events [OF call] signs
  have miss: "cacheHit K f options w = None"
    and evs: "evs = [SignatureCall (signatureInput f options)]"
    by auto
  have A: "\<exists>input. evs = [SignatureCall input] \<and> si_permitCap input = ?cap"
    using evs cap by (simp add: signatureInput_def)
  obtain so w1 where sg: "hf_signatureFn f (signatureInput f options) w = (so, w1)"
    by (cases "hf_signatureFn f (signatureInput f options) w")
  have B: "case r of None \<Rightarrow> True
             | Some h \<Rightarrow> (\<exists>p. hr_headerValue h = encodePaymentPayload p
                    \<and> auth_value (pl_authorization (pp_payload p)) = ?cap)"
  proof (cases so)
    case None
    with getHeader_miss_rejected [OF miss] sg call show ?thesis by simp
  next
    case (Some s)
    with getHeader_miss_signed [OF miss] sg call
    have r: "r = Some \<lparr> hr_headerName = headerName (config f),
              hr_headerValue = signedHeader f options s,
              hr_deadline = parseInt (so_deadline s) \<rparr>" by auto
    have "auth_value (pl_authorization (pp_payload (buildPaymentPayload
       \<lparr> bi_config = config f, bi_accountAddress = so_accountAddress s,
         bi_permitCap = effectiveCap f options, bi_signature = so_signature s,
         bi_nonce = so_nonce s, bi_deadline = so_deadline s \<rparr>))) = ?cap"
      by (simp add: buildPaymentPayload_def cap)
    then show ?thesis
      unfolding r signedHeader_def by auto
  qed
  from A B show ?thesis by blast
qed

text \<open>C8, witness: the retry of the test, with the server's cap \<open>500000\<close>.\<close>

theorem effective_cap_witness:
  "\<exists>h f' w' input p.
     getHeader mockClock (Some serverCapOptions) testFactory testWorld
       = (Some h, f', w', [SignatureCall input])
     \<and> si_permitCap input = ''500000''
     \<and> hr_headerValue h = encodePaymentPayload p
     \<and> auth_value (pl_authorization (pp_payload p)) = ''500000''"
proof -
  let ?s = "mockSignature ''0xabc123'' ''7'' ''600''"
  let ?w1 = "testWorld\<lparr>signatures := [Some (mockSignature ''0xdef456'' ''8'' ''601'')]\<rparr>"
  have miss: "cacheHit mockClock testFactory (Some serverCapOptions) testWorld = None"
    by (simp add: cacheHit_def testFactory_def createPaymentHeaderFactory_def)
  have sg: "hf_signatureFn testFactory (signatureInput testFactory (Some serverCapOptions)) testWorld
      = (Some ?s, ?w1)"
    by (simp add: testFactory_def createPaymentHeaderFactory_def mockSignatureFn_def testWorld_def)
  note call = getHeader_miss_signed [OF miss sg]
  have cap: "capOrDefault (Option.bind (Some serverCapOptions) capOverride) (hf_permitCap testFactory)
      = ''500000''"
    by (simp add: capOrDefault_def serverCapOptions_def)
  from effective_cap [OF call] cap call show ?thesis
    by auto
qed

text \<open>
  C10. After a \<open>getHeader\<close> that signed under the config \<open>C\<close>, and an \<open>updateConfig\<close> to a
  config that has the network, asset and payTo of \<open>C\<close> (whatever its facilitatorSigner,
  tokenName, tokenVersion and paymentHeader), a \<open>getHeader\<close> with the same cap, before the
  60-second window of the cached deadline, makes no signing call: it returns the header
  value built and signed under \<open>C\<close> (the signing function saw the facilitatorSigner,
  tokenName and tokenVersion of \<open>C\<close> only), under the header name of the new config.
\<close>

theorem stale_domain_reuse:
  fixes K :: "'w Clock" and f :: "'w HeaderFactory"
  assumes miss: "cacheHit K f o1 w1 = None"
    and sg: "hf_signatureFn f (signatureInput f o1) w1 = (Some s, w1')"
    and first: "getHeader K o1 f w1 = (r1, f1, w1'', evs1)"
    and same: "cfg_network c' = cfg_network (config f)" "cfg_asset c' = cfg_asset (config f)"
              "cfg_payTo c' = cfg_payTo (config f)"
    and mde: "Option.bind o2 minDeadlineExclusive = None"
    and cap: "effectiveCap f o2 = effectiveCap f o1"
    and fresh: "parseInt (so_deadline s) = Num d" "60 < d - Date_now K w2 div 1000"
  shows "getHeader K o2 (updateConfig c' f1) w2 =
           (Some \<lparr> hr_headerName = opt_or (cfg_paymentHeader c') ''PAYMENT-SIGNATURE'',
                    hr_headerValue = encodePaymentPayload (buildPaymentPayload
                       \<lparr> bi_config = config f, bi_accountAddress = so_accountAddress s,
                         bi_permitCap = effectiveCap f o1, bi_signature = so_signature s,
                         bi_nonce = so_nonce s, bi_deadline = so_deadline s \<rparr>),
                    hr_deadline = Num d \<rparr>,
            updateConfig c' f1, w2, [])
         \<and> evs1 = [SignatureCall (signatureInput f o1)]
         \<and> si_facilitatorSigner (signatureInput f o1) = cfg_facilitatorSigner (config f)
         \<and> si_tokenName (signatureInput f o1) = cfg_tokenName (config f)
         \<and> si_tokenVersion (signatureInput f o1) = cfg_tokenVersion (config f)"
proof -
  let ?c = "\<lparr> ch_value = signedHeader f o1 s, ch_deadline = parseInt (so_deadline s),
            ch_maxValue = effectiveCap f o1, ch_network = cfg_network (config f),
            ch_asset = cfg_asset (config f), ch_payTo = cfg_payTo (config f) \<rparr>"
  from first getHeader_miss_signed [OF miss sg]
  have f1: "f1 = f\<lparr>cached := Some ?c\<rparr>" and e1: "evs1 = [SignatureCall (signatureInput f o1)]"
    by auto
  have hit: "cacheHit K (updateConfig c' f1) o2 w2 = Some ?c"
    unfolding cacheHit_iff using mde cap same fresh
    by (simp add: f1 updateConfig_def isNearDeadline_Num effectiveCap_def)
  from getHeader_hit [OF hit] fresh e1 show ?thesis
    by (simp add: updateConfig_def headerName_def signedHeader_def signatureInput_def)
qed

text \<open>C10, witness: every field outside the cache key changes; the old header is returned.\<close>

theorem stale_domain_reuse_witness:
  "\<exists>r1 f1 w1 evs1.
     getHeader mockClock None testFactory testWorld = (r1, f1, w1, evs1)
     \<and> cfg_facilitatorSigner otherSigner \<noteq> cfg_facilitatorSigner (config testFactory)
     \<and> cfg_tokenName otherSigner \<noteq> cfg_tokenName (config testFactory)
     \<and> (60::int) < 600 - Date_now mockClock (w1\<lparr>clock := 6000\<rparr>) div 1000
     \<and> getHeader mockClock None (updateConfig otherSigner f1) (w1\<lparr>clock := 6000\<rparr>) =
          (Some \<lparr> hr_headerName = ''X-PAYMENT'',
                   hr_headerValue = encodePaymentPayload (buildPaymentPayload
                      \<lparr> bi_config = baseConfig,
                        bi_accountAddress = ''0x9999999999999999999999999999999999999999'',
                        bi_permitCap = ''1000000'', bi_signature = ''0xabc123'',
                        bi_nonce = ''7'', bi_deadline = ''600'' \<rparr>),
                   hr_deadline = Num 600 \<rparr>,
           updateConfig otherSigner f1, w1\<lparr>clock := 6000\<rparr>, [])"
proof -
  let ?s = "mockSignature ''0xabc123'' ''7'' ''600''"
  let ?w1 = "testWorld\<lparr>signatures := [Some (mockSignature ''0xdef456'' ''8'' ''601'')]\<rparr>"
  let ?w2 = "?w1\<lparr>clock := 6000\<rparr>"
  have miss: "cacheHit mockClock testFactory None testWorld = None"
    by (simp add: cacheHit_def testFactory_def createPaymentHeaderFactory_def)
  have sg: "hf_signatureFn testFactory (signatureInput testFactory None) testWorld = (Some ?s, ?w1)"
    by (simp add: testFactory_def createPaymentHeaderFactory_def mockSignatureFn_def testWorld_def)
  obtain r1 f1 w1 evs1 where first: "getHeader mockClock None testFactory testWorld = (r1, f1, w1, evs1)"
    by (metis prod_cases4)
  with getHeader_miss_signed [OF miss sg] have w1: "w1 = ?w1" by simp
  have cfg: "config testFactory = baseConfig"
    by (simp add: testFactory_def createPaymentHeaderFactory_def)
  have same: "cfg_network otherSigner = cfg_network (config testFactory)"
     "cfg_asset otherSigner = cfg_asset (config testFactory)"
     "cfg_payTo otherSigner = cfg_payTo (config testFactory)"
    by (simp_all add: cfg otherSigner_def)
  have mde: "Option.bind (None :: GetHeaderOptions option) minDeadlineExclusive = None" by simp
  have dl: "parseInt (so_deadline ?s) = Num 600"
    by (simp add: mockSignature_def parseInt_600)
  have now: "(60::int) < 600 - Date_now mockClock ?w2 div 1000"
    by (simp add: mockClock_def)
  have ne: "cfg_facilitatorSigner otherSigner \<noteq> cfg_facilitatorSigner (config testFactory)"
      "cfg_tokenName otherSigner \<noteq> cfg_tokenName (config testFactory)"
    by (simp_all add: cfg otherSigner_def baseConfig_def)
  have vals: "opt_or (cfg_paymentHeader otherSigner) ''PAYMENT-SIGNATURE'' = ''X-PAYMENT''"
    "effectiveCap testFactory None = ''1000000''"
    by (simp_all add: otherSigner_def opt_or_def str_or_def effectiveCap_def testFactory_def
        createPaymentHeaderFactory_def)
  from stale_domain_reuse [OF miss sg first same mde refl dl now]
  have "getHeader mockClock None (updateConfig otherSigner f1) ?w2 =
          (Some \<lparr> hr_headerName = ''X-PAYMENT'',
                   hr_headerValue = encodePaymentPayload (buildPaymentPayload
                      \<lparr> bi_config = baseConfig,
                        bi_accountAddress = ''0x9999999999999999999999999999999999999999'',
                        bi_permitCap = ''1000000'', bi_signature = ''0xabc123'',
                        bi_nonce = ''7'', bi_deadline = ''600'' \<rparr>),
                   hr_deadline = Num 600 \<rparr>,
           updateConfig otherSigner f1, ?w2, [])"
    by (simp add: vals cfg mockSignature_def)
  with first ne now w1 show ?thesis by blast
qed

subsection \<open>Decimal strings\<close>

lemma of_char_digitChar: "d < 10 \<Longrightarrow> (of_char (digitChar d) :: nat) = 48 + d"
  by (simp add: digitChar_def)

lemma digitChar_props:
  assumes "d < 10"
  shows "isDigit (digitChar d)" "digitValue (digitChar d) = d" "\<not> isWhiteSpace (digitChar d)"
    "digitChar d \<noteq> CHR ''-''" "digitChar d \<noteq> CHR ''+''"
proof -
  note oc = of_char_digitChar [OF assms]
  show "isDigit (digitChar d)" using assms by (simp add: isDigit_def oc)
  show "digitValue (digitChar d) = d" by (simp add: digitValue_def oc)
  show "\<not> isWhiteSpace (digitChar d)" using assms by (simp add: isWhiteSpace_def oc)
  have "(of_char (digitChar d) :: nat) \<noteq> of_char (CHR ''-'')" by (simp add: oc)
  then show "digitChar d \<noteq> CHR ''-''" by metis
  have "(of_char (digitChar d) :: nat) \<noteq> of_char (CHR ''+'')" by (simp add: oc)
  then show "digitChar d \<noteq> CHR ''+''" by metis
qed

lemma natToString_digits: "c \<in> set (natToString n) \<Longrightarrow> isDigit c"
proof (induction n arbitrary: c rule: natToString.induct)
  case (1 n)
  show ?case
  proof (cases "n < 10")
    case True
    with "1.prems" show ?thesis
      by (subst (asm) natToString.simps) (simp add: digitChar_props)
  next
    case False
    with "1.prems" have "c \<in> set (natToString (n div 10)) \<or> c = digitChar (n mod 10)"
      by (subst (asm) natToString.simps) auto
    with False "1.IH" show ?thesis
      by (auto simp: digitChar_props)
  qed
qed

lemma digitsValue_snoc: "digitsValue (xs @ [c]) = digitsValue xs * 10 + digitValue c"
  by (simp add: digitsValue_def)

lemma digitsValue_natToString: "digitsValue (natToString n) = n"
proof (induction n rule: natToString.induct)
  case (1 n)
  show ?case
  proof (cases "n < 10")
    case True
    then show ?thesis
      by (subst natToString.simps) (simp add: digitsValue_def digitChar_props)
  next
    case False
    with 1 show ?thesis
      by (subst natToString.simps) (simp add: digitsValue_snoc digitChar_props)
  qed
qed

lemma natToString_hd:
  "\<exists>c cs. natToString n = c # cs \<and> \<not> isWhiteSpace c \<and> c \<noteq> CHR ''-'' \<and> c \<noteq> CHR ''+''"
proof (induction n rule: natToString.induct)
  case (1 n)
  show ?case
  proof (cases "n < 10")
    case True
    then show ?thesis
      by (subst natToString.simps) (simp add: digitChar_props)
  next
    case False
    with 1 obtain c cs where "natToString (n div 10) = c # cs" "\<not> isWhiteSpace c"
      "c \<noteq> CHR ''-''" "c \<noteq> CHR ''+''" by blast
    with False show ?thesis
      by (subst natToString.simps) simp
  qed
qed

lemma takeWhile_all: "(\<And>c. c \<in> set xs \<Longrightarrow> P c) \<Longrightarrow> takeWhile P xs = xs"
  by (induction xs) auto

lemma parseInt_natToString: "parseInt (natToString n) = Num (int n)"
proof -
  obtain c cs where h: "natToString n = c # cs" "\<not> isWhiteSpace c" "c \<noteq> CHR ''-''" "c \<noteq> CHR ''+''"
    using natToString_hd by blast
  have tw: "takeWhile isDigit (c # cs) = c # cs"
    using natToString_digits [of _ n] h(1) by (intro takeWhile_all) simp
  have "digitsValue (c # cs) = n"
    using digitsValue_natToString [of n] h(1) by simp
  then show ?thesis
    using h tw by (simp add: parseInt_def Let_def)
qed

lemma parseInt_intToString: "parseInt (intToString i) = Num i"
proof (cases "i < 0")
  case False
  then show ?thesis
    using parseInt_natToString [of "nat i"] by (simp add: intToString_def)
next
  case True
  have tw: "takeWhile isDigit (natToString (nat (- i))) = natToString (nat (- i))"
    using natToString_digits by (intro takeWhile_all) simp
  have ne: "natToString (nat (- i)) \<noteq> []"
    using natToString_hd [of "nat (- i)"] by auto
  have ws: "\<not> isWhiteSpace (CHR ''-'')" by (simp add: isWhiteSpace_def)
  show ?thesis
    using True ne ws
    by (simp add: intToString_def parseInt_def Let_def tw digitsValue_natToString)
qed

subsection \<open>The signing source\<close>



subsection \<open>How the interceptor runs\<close>





lemma sendWithPermit_static:
  assumes "truthyString (in_staticHeaderValue (ic_input ic)) = Some sv"
  shows "sendWithPermit K info init co md ic w =
     (case in_baseFetch (ic_input ic) info
             (Some (withHeaders init (Headers_set (opt_or (in_staticHeaderName (ic_input ic)) ''PAYMENT-SIGNATURE'')
                       sv (callerHeaders init)))) w of
        (r, w') \<Rightarrow>
          ((case r of None \<Rightarrow> Inl FetchRejected | Some x \<Rightarrow> Inr (x, None)), ic, w',
           [FetchCall info (Some (withHeaders init
               (Headers_set (opt_or (in_staticHeaderName (ic_input ic)) ''PAYMENT-SIGNATURE'')
                  sv (callerHeaders init))))]))"
  using assms
  by (simp add: sendWithPermit_def callerHeaders_def Let_def split: prod.splits option.splits)

lemma sendWithPermit_signing:
  assumes "truthyString (in_staticHeaderValue (ic_input ic)) = None"
    and "headerFactoryPromise ic = Some f"
    and "getHeader K (Some \<lparr> capOverride = co, minDeadlineExclusive = md \<rparr>) f w = (hr, f1, w1, es)"
  shows "sendWithPermit K info init co md ic w =
     (case hr of
        None \<Rightarrow> (Inl SignatureRejected, ic\<lparr>headerFactoryPromise := Some f1\<rparr>, w1, es)
      | Some h \<Rightarrow>
          (case in_baseFetch (ic_input ic) info
                  (Some (withHeaders init (Headers_set (hr_headerName h) (hr_headerValue h)
                           (callerHeaders init)))) w1 of
             (r, w2) \<Rightarrow>
               ((case r of None \<Rightarrow> Inl FetchRejected | Some x \<Rightarrow> Inr (x, Some (hr_deadline h))),
                ic\<lparr>headerFactoryPromise := Some f1\<rparr>, w2,
                es @ [FetchCall info (Some (withHeaders init
                        (Headers_set (hr_headerName h) (hr_headerValue h) (callerHeaders init))))])))"
  using assms
  by (simp add: sendWithPermit_def callerHeaders_def Let_def split: prod.splits option.splits)

lemma sendWithPermit_null:
  assumes "truthyString (in_staticHeaderValue (ic_input ic)) = None"
    and "headerFactoryPromise ic = None"
  shows "sendWithPermit K info init co md ic w = (Inl NullFactory, ic, w, [])"
  using assms by (simp add: sendWithPermit_def Let_def)

lemma Headers_get_set [simp]: "Headers_get name (Headers_set name v h) = Some v"
  by (simp add: Headers_get_def Headers_set_def)






lemma applyPaymentRequirement_None [simp]: "applyPaymentRequirement c None = c"
  by (simp add: applyPaymentRequirement_def)

lemma onPaymentChallenge_static:
  assumes "truthyString (in_staticHeaderValue (ic_input ic)) = Some sv"
  shows "onPaymentChallenge K info init r d ic w = (Inr r, ic, w, [])"
  using assms by (simp add: onPaymentChallenge_def Let_def)

lemma onPaymentChallenge_null:
  assumes "truthyString (in_staticHeaderValue (ic_input ic)) = None" "headerFactoryPromise ic = None"
  shows "onPaymentChallenge K info init r d ic w = (Inr r, ic, w, [])"
  using assms by (simp add: onPaymentChallenge_def Let_def)

lemma updateConfig_same [simp]: "updateConfig (config f) f = f"
  by (simp add: updateConfig_def)

lemma onPaymentChallenge_signing:
  assumes "truthyString (in_staticHeaderValue (ic_input ic)) = None" "headerFactoryPromise ic = Some f"
  shows "onPaymentChallenge K info init r d ic w =
     (if extractErrorResponse r = None \<or> \<not> shouldInvalidatePermit (extractErrorResponse r)
      then (Inr r, ic\<lparr>headerFactoryPromise := Some (challengedFactory r f)\<rparr>, w, [])
      else (case sendWithPermit K info init (getRequirementMaxAmountRequired (challengeRequirement r)) d
                   (ic\<lparr>headerFactoryPromise := Some (invalidate (challengedFactory r f))\<rparr>) w of
              (res, ic3, w3, evs) \<Rightarrow> (map_sum id fst res, ic3, w3, evs)))"
proof (cases "challengeRequirement r")
  case None
  have "ic\<lparr>headerFactoryPromise := Some f\<rparr> = ic" using assms(2) by simp
  with None assms show ?thesis
    by (auto simp: onPaymentChallenge_def Let_def challengedFactory_def getConfig_def
             split: prod.splits sum.splits)
next
  case (Some q)
  with assms show ?thesis
    by (auto simp: onPaymentChallenge_def Let_def challengedFactory_def
             split: prod.splits sum.splits)
qed


lemma wrappedFetch_chargeable:
  assumes "parseRequestURL U info (routerOrigin ic) = Some parsed" "\<not> passThrough ic parsed"
    and "prepareFactory ic w = (None, ic0, w0, evs0)"
    and "sendWithPermit K info init None None ic0 w0 = (Inr (r, d), ic1, w1, evs1)"
  shows "wrappedFetch K U info init ic w =
     (if status r \<noteq> 401 \<and> status r \<noteq> 402 then (Inr r, ic1, w1, evs0 @ evs1)
      else (case onPaymentChallenge K info init r d ic1 w1 of
              (res, ic2, w2, evs2) \<Rightarrow> (res, ic2, w2, evs0 @ evs1 @ evs2)))"
  using assms by (simp add: wrappedFetch_def)




subsection \<open>The fetch interceptor\<close>







subsection \<open>Evaluating the fixtures\<close>







subsection \<open>The challenge and the retry\<close>




lemma challengedFactory_frame [simp]:
  "hf_signatureFn (challengedFactory r f) = hf_signatureFn f"
  "hf_permitCap (challengedFactory r f) = hf_permitCap f"
  "cached (challengedFactory r f) = cached f"
  "config (challengedFactory r f) = applyPaymentRequirement (config f) (challengeRequirement r)"
  by (simp_all add: challengedFactory_def updateConfig_def getConfig_def)

lemma invalidate_frame [simp]:
  "hf_signatureFn (invalidate f) = hf_signatureFn f"
  "hf_permitCap (invalidate f) = hf_permitCap f"
  "cached (invalidate f) = None"
  "config (invalidate f) = config f"
  by (simp_all add: invalidate_def)




subsection \<open>The retry test, evaluated\<close>



lemma testFactory_simps [simp]:
  "config testFactory = baseConfig" "hf_permitCap testFactory = ''1000000''"
  "hf_signatureFn testFactory = mockSignatureFn" "cached testFactory = None"
  by (simp_all add: testFactory_def createPaymentHeaderFactory_def)

lemma headerName_baseConfig [simp]: "headerName baseConfig = ''PAYMENT-SIGNATURE''"
  by (simp add: headerName_def baseConfig_def opt_or_def str_or_def)











lemma env_pk_respects:
  assumes "createEnvPrivateKeySignatureFn K V privateKey input w = (Some out, w')"
  shows "respectsMinDeadline input out"
proof -
  define d where "d = (case si_minDeadlineExclusive input of
                     Some (Num m) \<Rightarrow>
                       if Date_now K w div 1000 + 3600 \<le> m then m + 1
                       else Date_now K w div 1000 + 3600
                   | _ \<Rightarrow> Date_now K w div 1000 + 3600)"
  have dl: "(case si_minDeadlineExclusive input of
               Some m \<Rightarrow> if js_le (Num (Date_now K w div 1000 + DEFAULT_VALIDITY_SECONDS)) m
                         then js_add m (Num 1)
                         else Num (Date_now K w div 1000 + DEFAULT_VALIDITY_SECONDS)
             | None \<Rightarrow> Num (Date_now K w div 1000 + DEFAULT_VALIDITY_SECONDS)) = Num d"
    by (simp add: d_def DEFAULT_VALIDITY_SECONDS_def split: option.splits jsnum.splits)
  from assms have "so_deadline out = numberToString (Num d)"
    unfolding createEnvPrivateKeySignatureFn_def Let_def dl
    by (auto split: prod.splits option.splits)
  then have "parseInt (so_deadline out) = Num d"
    by (simp add: numberToString_def parseInt_intToString)
  then show ?thesis
    by (simp add: respectsMinDeadline_def d_def split: option.splits jsnum.splits)
qed















subsection \<open>Exactly one retry\<close>

lemma fetchCalls_append [simp]: "fetchCalls (xs @ ys) = fetchCalls xs + fetchCalls ys"
  by (simp add: fetchCalls_def)

lemma signatureCalls_append [simp]: "signatureCalls (xs @ ys) = signatureCalls xs + signatureCalls ys"
  by (simp add: signatureCalls_def)

lemma getHeader_counts:
  "getHeader K options f w = (r, f', w', evs) \<Longrightarrow> fetchCalls evs = 0 \<and> signatureCalls evs \<le> 1"
  by (drule getHeader_events) (auto simp: fetchCalls_def signatureCalls_def)

lemma sendWithPermit_counts:
  assumes "sendWithPermit K info init co md ic w = (res, ic', w', evs)"
  shows "fetchCalls evs \<le> 1 \<and> signatureCalls evs \<le> 1"
proof -
  consider (static) sv where "truthyString (in_staticHeaderValue (ic_input ic)) = Some sv"
    | (null) "truthyString (in_staticHeaderValue (ic_input ic)) = None" "headerFactoryPromise ic = None"
    | (sign) f where "truthyString (in_staticHeaderValue (ic_input ic)) = None" "headerFactoryPromise ic = Some f"
    by (cases "truthyString (in_staticHeaderValue (ic_input ic))"; cases "headerFactoryPromise ic") auto
  then show ?thesis
  proof cases
    case static
    from assms show ?thesis
      unfolding sendWithPermit_static [OF static]
      by (auto simp: fetchCalls_def signatureCalls_def split: prod.splits)
  next
    case null
    from assms show ?thesis
      unfolding sendWithPermit_null [OF null] by (auto simp: fetchCalls_def signatureCalls_def)
  next
    case sign
    obtain hr f1 w1 es where g: "getHeader K (Some \<lparr> capOverride = co, minDeadlineExclusive = md \<rparr>) f w = (hr, f1, w1, es)"
      by (metis prod_cases4)
    from assms getHeader_counts [OF g] show ?thesis
      unfolding sendWithPermit_signing [OF sign g]
      by (auto simp: fetchCalls_def signatureCalls_def split: prod.splits option.splits)
  qed
qed

lemma onPaymentChallenge_counts:
  assumes "onPaymentChallenge K info init r d ic w = (res, ic', w', evs)"
  shows "fetchCalls evs \<le> 1 \<and> signatureCalls evs \<le> 1"
proof -
  consider (static) sv where "truthyString (in_staticHeaderValue (ic_input ic)) = Some sv"
    | (null) "truthyString (in_staticHeaderValue (ic_input ic)) = None" "headerFactoryPromise ic = None"
    | (sign) f where "truthyString (in_staticHeaderValue (ic_input ic)) = None" "headerFactoryPromise ic = Some f"
    by (cases "truthyString (in_staticHeaderValue (ic_input ic))"; cases "headerFactoryPromise ic") auto
  then show ?thesis
  proof cases
    case static
    from assms show ?thesis unfolding onPaymentChallenge_static [OF static]
      by (auto simp: fetchCalls_def signatureCalls_def)
  next
    case null
    from assms show ?thesis unfolding onPaymentChallenge_null [OF null]
      by (auto simp: fetchCalls_def signatureCalls_def)
  next
    case sign
    show ?thesis
    proof (cases "extractErrorResponse r = None \<or> \<not> shouldInvalidatePermit (extractErrorResponse r)")
      case True
      with assms show ?thesis unfolding onPaymentChallenge_signing [OF sign]
        by (auto simp: fetchCalls_def signatureCalls_def)
    next
      case False
      let ?ic2 = "ic\<lparr>headerFactoryPromise := Some (invalidate (challengedFactory r f))\<rparr>"
      obtain res3 ic3 w3 evs3 where
        s: "sendWithPermit K info init (getRequirementMaxAmountRequired (challengeRequirement r)) d ?ic2 w
              = (res3, ic3, w3, evs3)"
        by (metis prod_cases4)
      from assms False have "evs = evs3"
        unfolding onPaymentChallenge_signing [OF sign] s by auto
      with sendWithPermit_counts [OF s] show ?thesis by simp
    qed
  qed
qed

text \<open>
  On every path, a call of \<open>wrappedFetch\<close> makes at most two transport calls and two signing
  calls besides what preparing the factory costs (the one-time router-config fetch).
\<close>

lemma at_most_one_retry:
  assumes run: "wrappedFetch K U info init ic w = (res, ic', w', evs)"
    and parsed: "parseRequestURL U info (routerOrigin ic) = Some parsed"
    and chargeable: "\<not> passThrough ic parsed"
    and prep: "prepareFactory ic w = (e0, ic0, w0, evs0)"
  shows "fetchCalls evs \<le> fetchCalls evs0 + 2 \<and> signatureCalls evs \<le> signatureCalls evs0 + 2"
proof (cases e0)
  case (Some err)
  with run parsed chargeable prep have "evs = evs0" by (simp add: wrappedFetch_def)
  then show ?thesis by simp
next
  case None
  obtain r1 ic1 w1 evs1 where
    send: "sendWithPermit K info init None None ic0 w0 = (r1, ic1, w1, evs1)"
    by (metis prod_cases4)
  note c1 = sendWithPermit_counts [OF send]
  show ?thesis
  proof (cases r1)
    case (Inl err)
    with run parsed chargeable prep None send have "evs = evs0 @ evs1"
      by (simp add: wrappedFetch_def)
    with c1 show ?thesis by simp
  next
    case (Inr rd)
    obtain r d where rd: "rd = (r, d)" by (cases rd)
    note wf = wrappedFetch_chargeable [OF parsed chargeable prep [unfolded None] send [unfolded Inr rd]]
    show ?thesis
    proof (cases "status r \<noteq> 401 \<and> status r \<noteq> 402")
      case True
      with run wf have "evs = evs0 @ evs1" by simp
      with c1 show ?thesis by simp
    next
      case False
      obtain res2 ic2 w2 evs2 where
        ch: "onPaymentChallenge K info init r d ic1 w1 = (res2, ic2, w2, evs2)"
        by (metis prod_cases4)
      from run wf False ch have "evs = evs0 @ evs1 @ evs2" by auto
      with c1 onPaymentChallenge_counts [OF ch] show ?thesis by simp
    qed
  qed
qed







subsection \<open>The challenge's requirement\<close>






subsection \<open>The round trip of the header value\<close>

text \<open>Base64: decoding what was encoded gives the bytes back.\<close>


lemma sextet_bounds:
  fixes x y :: nat
  assumes "x < 256" "y < 256"
  shows "x div 4 < 64" "(x mod 4) * 16 + y div 16 < 64" "(x mod 16) * 4 + y div 64 < 64"
    "x mod 64 < 64" "(x mod 4) * 16 < 64" "(x mod 16) * 4 < 64"
proof -
  show "x div 4 < 64" using assms by simp
  have "x mod 4 < 4" "y div 16 < 16" "x mod 16 < 16" "y div 64 < 4" using assms by simp_all
  then show "(x mod 4) * 16 + y div 16 < 64" "(x mod 16) * 4 + y div 64 < 64"
     "(x mod 4) * 16 < 64" "(x mod 16) * 4 < 64" by linarith+
  show "x mod 64 < 64" by simp
qed

lemma join1: fixes x y :: nat assumes "y < 16" shows "x div 4 * 4 + ((x mod 4) * 16 + y) div 16 = x"
proof -
  have "((x mod 4) * 16 + y) div 16 = x mod 4" using assms by simp
  then show ?thesis by simp
qed

lemma join2: fixes x y z :: nat assumes "y < 16" "z < 4"
  shows "((x mod 4) * 16 + y) mod 16 * 16 + (w * 4 + z) div 4 = y * 16 + w"
proof -
  have "((x mod 4) * 16 + y) mod 16 = y" using assms by simp
  moreover have "(w * 4 + z) div 4 = w" using assms by simp
  ultimately show ?thesis by simp
qed

lemma join3: fixes y z :: nat assumes "z < 4"
  shows "((y mod 16) * 4 + z) mod 4 * 64 + w = z * 64 + w"
proof -
  have "((y mod 16) * 4 + z) mod 4 = z" using assms by simp
  then show ?thesis by simp
qed


lemma of_char_b64char: "i < 64 \<Longrightarrow> (of_char (b64char i) :: nat) =
   (if i < 26 then 65 + i else if i < 52 then 71 + i else if i < 62 then i - 4
    else if i = 62 then 43 else 47)"
  by (simp add: b64char_def)

lemma char_eq_code: "c = d \<longleftrightarrow> (of_char c :: nat) = of_char d"
  by simp

lemma b64value_b64char: "i < 64 \<Longrightarrow> b64value (b64char i) = Some i"
  unfolding b64value_def Let_def char_eq_code [of _ "CHR ''+''"] char_eq_code [of _ "CHR ''-''"]
     char_eq_code [of _ "CHR ''/''"] char_eq_code [of _ "CHR ''_''"]
  by (auto simp: of_char_b64char)

lemma b64char_not_pad: "i < 64 \<Longrightarrow> b64char i \<noteq> CHR ''=''"
  unfolding char_eq_code [of _ "CHR ''=''"]
  by (auto simp: of_char_b64char)


lemma byte_div_mod:
  fixes c :: char
  shows "(of_char c :: nat) div 16 < 16" "(of_char c :: nat) div 64 < 4"
    "(of_char c :: nat) div 16 * 16 + of_char c mod 16 = of_char c"
    "(of_char c :: nat) div 64 * 64 + of_char c mod 64 = of_char c"
proof -
  have lt: "(of_char c :: nat) < 256" by simp
  show "(of_char c :: nat) div 16 < 16" using lt by (simp add: less_mult_imp_div_less)
  show "(of_char c :: nat) div 64 < 4" using lt by (simp add: less_mult_imp_div_less)
  show "(of_char c :: nat) div 16 * 16 + of_char c mod 16 = of_char c"
    "(of_char c :: nat) div 64 * 64 + of_char c mod 64 = of_char c" by simp_all
qed

lemma base64_decode_4:
  assumes "i < 64" "j < 64" "k < 64" "l < 64"
  shows "base64_decode (b64char i # b64char j # b64char k # b64char l # s) =
     char_of (i * 4 + j div 16) # char_of ((j mod 16) * 16 + k div 4)
       # char_of ((k mod 4) * 64 + l) # base64_decode s"
  using assms
  by (simp add: base64_decode_def b64char_not_pad b64value_b64char List.map_filter_simps)

lemma base64_decode_3:
  assumes "i < 64" "j < 64" "k < 64"
  shows "base64_decode [b64char i, b64char j, b64char k, CHR ''=''] =
     [char_of (i * 4 + j div 16), char_of ((j mod 16) * 16 + k div 4)]"
  using assms
  by (simp add: base64_decode_def b64char_not_pad b64value_b64char List.map_filter_simps)

lemma base64_decode_2:
  assumes "i < 64" "j < 64"
  shows "base64_decode [b64char i, b64char j, CHR ''='', CHR ''=''] = [char_of (i * 4 + j div 16)]"
  using assms
  by (simp add: base64_decode_def b64char_not_pad b64value_b64char List.map_filter_simps)

lemma byte_sextets:
  fixes a b :: char
  shows "(of_char a :: nat) div 4 < 64" "(of_char a :: nat) mod 4 * 16 + of_char b div 16 < 64"
    "(of_char a :: nat) mod 16 * 4 + of_char b div 64 < 64" "(of_char a :: nat) mod 64 < 64"
    "(of_char a :: nat) mod 4 * 16 < 64" "(of_char a :: nat) mod 16 * 4 < 64"
  by (rule sextet_bounds [of "of_char a" "of_char b"]; simp)+

lemma base64_roundtrip: "base64_decode (base64_encode bs) = bs"
proof (induction bs rule: base64_encode.induct)
  case 1
  show ?case by (simp add: base64_decode_def List.map_filter_simps)
next
  case (2 a)
  note bd = byte_sextets
  have j: "(of_char a :: nat) div 4 * 4 + (of_char a mod 4 * 16) div 16 = of_char a"
    using join1 [of 0 "of_char a"] by simp
  have "base64_decode (base64_encode [a]) =
     [char_of ((of_char a :: nat) div 4 * 4 + (of_char a mod 4 * 16) div 16)]"
    unfolding base64_encode.simps by (rule base64_decode_2) (rule bd)+
  then show ?case unfolding j by simp
next
  case (3 a b)
  note bd = byte_sextets
  have j1: "(of_char a :: nat) div 4 * 4 + (of_char a mod 4 * 16 + of_char b div 16) div 16 = of_char a"
    by (rule join1) (rule byte_div_mod)
  have j2: "((of_char a :: nat) mod 4 * 16 + of_char b div 16) mod 16 * 16
                   + ((of_char b mod 16) * 4) div 4 = of_char b"
    using join2 [of "of_char b div 16" 0 "of_char a" "of_char b mod 16"]
    by (simp add: byte_div_mod)
  have "base64_decode (base64_encode [a, b]) =
     [char_of ((of_char a :: nat) div 4 * 4 + (of_char a mod 4 * 16 + of_char b div 16) div 16),
      char_of (((of_char a :: nat) mod 4 * 16 + of_char b div 16) mod 16 * 16
                   + ((of_char b mod 16) * 4) div 4)]"
    unfolding base64_encode.simps by (rule base64_decode_3) (rule bd)+
  then show ?case unfolding j1 j2 by simp
next
  case (4 a b c r)
  note bd = byte_sextets
  have j1: "(of_char a :: nat) div 4 * 4 + (of_char a mod 4 * 16 + of_char b div 16) div 16 = of_char a"
    by (rule join1) (rule byte_div_mod)
  have j2: "((of_char a :: nat) mod 4 * 16 + of_char b div 16) mod 16 * 16
                   + ((of_char b mod 16) * 4 + of_char c div 64) div 4 = of_char b"
    using join2 [of "of_char b div 16" "of_char c div 64" "of_char a" "of_char b mod 16"]
    by (simp add: byte_div_mod)
  have j3: "(((of_char b :: nat) mod 16) * 4 + of_char c div 64) mod 4 * 64 + of_char c mod 64
      = of_char c"
    using join3 [of "of_char c div 64" "of_char b" "of_char c mod 64"]
    by (simp add: byte_div_mod)
  have "base64_decode (base64_encode (a # b # c # r)) =
      char_of ((of_char a :: nat) div 4 * 4 + (of_char a mod 4 * 16 + of_char b div 16) div 16)
        # char_of (((of_char a :: nat) mod 4 * 16 + of_char b div 16) mod 16 * 16
                   + ((of_char b mod 16) * 4 + of_char c div 64) div 4)
        # char_of ((((of_char b :: nat) mod 16) * 4 + of_char c div 64) mod 4 * 64 + of_char c mod 64)
        # base64_decode (base64_encode r)"
    unfolding base64_encode.simps by (rule base64_decode_4) (rule bd)+
  then show ?case unfolding j1 j2 j3 4 by simp
qed


lemma utf8_decode_ascii:
  "(of_char c :: nat) < 128 \<Longrightarrow> utf8_decode (c # bs) = c # utf8_decode bs"
  by (cases bs) simp_all

lemma utf8_decode_two:
  assumes "128 \<le> (of_char c :: nat)"
  shows "utf8_decode (char_of (192 + (of_char c :: nat) div 64) # char_of (128 + (of_char c :: nat) mod 64) # bs)
           = c # utf8_decode bs"
proof -
  define n where "n = (of_char c :: nat)"
  define B1 where "B1 = (char_of (192 + n div 64) :: char)"
  define B2 where "B2 = (char_of (128 + n mod 64) :: char)"
  have lt: "n < 256" unfolding n_def by simp
  have ge: "128 \<le> n" using assms unfolding n_def .
  have d4: "n div 64 < 4" using lt by (simp add: less_mult_imp_div_less)
  have d2: "2 \<le> n div 64" using ge by (simp add: le_div_geq)
  have m: "n mod 64 < 64" by simp
  have b1: "(of_char B1 :: nat) = 192 + n div 64"
    unfolding B1_def using d4 by simp
  have b2: "(of_char B2 :: nat) = 128 + n mod 64"
    unfolding B2_def using m by simp
  have c1: "\<not> (of_char B1 :: nat) < 128" unfolding b1 by simp
  have c2: "(of_char B1 :: nat) = 194 \<or> (of_char B1 :: nat) = 195"
    unfolding b1 using d2 d4 by linarith
  have c3: "(128::nat) \<le> of_char B2" "(of_char B2 :: nat) < 192" unfolding b2 using m by simp_all
  have v: "((of_char B1 :: nat) - 192) * 64 + (of_char B2 - 128) = n"
    unfolding b1 b2 by simp
  have "utf8_decode (B1 # B2 # bs) = char_of n # utf8_decode bs"
    unfolding utf8_decode.simps using c1 c2 c3 v by simp
  also have "char_of n = c" unfolding n_def by simp
  finally show ?thesis unfolding B1_def B2_def n_def .
qed

lemma utf8_roundtrip: "utf8_decode (utf8_encode s) = s"
proof (induction s)
  case Nil
  show ?case by (simp add: utf8_encode_def)
next
  case (Cons c s)
  have ih: "utf8_decode (utf8_encode s) = s" using Cons .
  show ?case
  proof (cases "(of_char c :: nat) < 128")
    case True
    then have "utf8_encode (c # s) = c # utf8_encode s"
      by (simp add: utf8_encode_def utf8_encode_char_def)
    then show ?thesis using True ih by (simp only: utf8_decode_ascii)
  next
    case False
    then have ge: "128 \<le> (of_char c :: nat)" by simp
    from False have "utf8_encode (c # s) =
       char_of (192 + (of_char c :: nat) div 64) # char_of (128 + (of_char c :: nat) mod 64) # utf8_encode s"
      by (simp add: utf8_encode_def utf8_encode_char_def Let_def)
    then show ?thesis using ih by (simp only: utf8_decode_two [OF ge])
  qed
qed



lemma hexValue_hexDigit: "d < 16 \<Longrightarrow> hexValue (hexDigit d) = Some d"
  by (auto simp: hexValue_def hexDigit_def)

lemma hexValue_zero: "hexValue (CHR ''0'') = Some 0"
  by (simp add: hexValue_def)

lemma codeUnit_of_char: "codeUnit (of_char c) = c"
  by (simp add: codeUnit_def)

lemma parse_chars_escape:
  assumes "unescape e = Some x" "e \<noteq> CHR ''u''"
  shows "parse_chars (BS # e # X) = map_option (\<lambda>(s, t). (x # s, t)) (parse_chars X)"
  using assms by simp

lemma parse_chars_control:
  fixes c :: char
  assumes "(of_char c :: nat) < 32"
  shows "parse_chars (BS # CHR ''u'' # CHR ''0'' # CHR ''0'' # hexDigit (of_char c div 16)
            # hexDigit (of_char c mod 16) # X)
         = map_option (\<lambda>(s, t). (c # s, t)) (parse_chars X)"
proof -
  have d: "(of_char c :: nat) div 16 < 16" "(of_char c :: nat) mod 16 < 16"
    using assms by simp_all
  have v: "((0 * 16 + 0) * 16 + (of_char c :: nat) div 16) * 16 + of_char c mod 16 = of_char c"
    by simp
  show ?thesis
    by (simp add: hexValue_hexDigit [OF d(1)] hexValue_hexDigit [OF d(2)] hexValue_zero
        codeUnit_of_char del: of_char_mod_256)
qed

lemma parse_chars_plain:
  assumes "c \<noteq> DQ" "c \<noteq> BS" "\<not> (of_char c :: nat) < 32"
  shows "parse_chars (c # X) = map_option (\<lambda>(s, t). (c # s, t)) (parse_chars X)"
  using assms by simp

lemma parse_chars_quoteChar:
  "parse_chars (quoteChar c @ X) = map_option (\<lambda>(s, t). (c # s, t)) (parse_chars X)"
proof -
  consider (dq) "c = DQ" | (bs) "c = BS" | (b) "c = CHR 0x08" | (f) "c = CHR 0x0C"
    | (n) "c = CHR 0x0A" | (r) "c = CHR 0x0D" | (t) "c = CHR 0x09"
    | (ctl) "c \<noteq> DQ" "c \<noteq> BS" "c \<noteq> CHR 0x08" "c \<noteq> CHR 0x0C" "c \<noteq> CHR 0x0A" "c \<noteq> CHR 0x0D"
        "c \<noteq> CHR 0x09" "(of_char c :: nat) < 32"
    | (plain) "c \<noteq> DQ" "c \<noteq> BS" "c \<noteq> CHR 0x08" "c \<noteq> CHR 0x0C" "c \<noteq> CHR 0x0A" "c \<noteq> CHR 0x0D"
        "c \<noteq> CHR 0x09" "\<not> (of_char c :: nat) < 32"
    by blast
  then show ?thesis
  proof cases
    case dq
    have "quoteChar c = [BS, DQ]" unfolding dq by (simp add: quoteChar_def)
    then show ?thesis unfolding dq by (simp add: unescape_def)
  next
    case bs
    have "quoteChar c = [BS, BS]" unfolding bs by (simp add: quoteChar_def)
    then show ?thesis unfolding bs by (simp add: unescape_def)
  next
    case b
    have "quoteChar c = [BS, CHR ''b'']" unfolding b by (simp add: quoteChar_def)
    then show ?thesis unfolding b by (simp add: unescape_def)
  next
    case f
    have "quoteChar c = [BS, CHR ''f'']" unfolding f by (simp add: quoteChar_def)
    then show ?thesis unfolding f by (simp add: unescape_def)
  next
    case n
    have "quoteChar c = [BS, CHR ''n'']" unfolding n by (simp add: quoteChar_def)
    then show ?thesis unfolding n by (simp add: unescape_def)
  next
    case r
    have "quoteChar c = [BS, CHR ''r'']" unfolding r by (simp add: quoteChar_def)
    then show ?thesis unfolding r by (simp add: unescape_def)
  next
    case t
    have "quoteChar c = [BS, CHR ''t'']" unfolding t by (simp add: quoteChar_def)
    then show ?thesis unfolding t by (simp add: unescape_def)
  next
    case ctl
    then have "quoteChar c = [BS, CHR ''u'', CHR ''0'', CHR ''0'', hexDigit (of_char c div 16),
        hexDigit (of_char c mod 16)]"
      by (simp add: quoteChar_def)
    then show ?thesis using parse_chars_control [OF ctl(8), of X] by simp
  next
    case plain
    then have "quoteChar c = [c]" by (simp add: quoteChar_def)
    then show ?thesis using parse_chars_plain [OF plain(1,2,8), of X] by simp
  qed
qed

lemma parse_chars_quoted:
  "parse_chars (concat (map quoteChar s) @ DQ # rest) = Some (s, rest)"
  by (induction s) (simp_all add: parse_chars_quoteChar)


lemma quoteJSONString_append:
  "quoteJSONString s @ rest = DQ # concat (map quoteChar s) @ DQ # rest"
  by (simp add: quoteJSONString_def)

lemma skipWs_quoted: "skipWs (quoteJSONString s @ rest) = quoteJSONString s @ rest"
  by (simp add: quoteJSONString_def skipWs_def isJsonWs_def)

lemma skipWs_punct:
  "skipWs (CHR '','' # s) = CHR '','' # s" "skipWs (CHR '':'' # s) = CHR '':'' # s"
  "skipWs (CHR ''{'' # s) = CHR ''{'' # s" "skipWs (CHR ''}'' # s) = CHR ''}'' # s"
  "skipWs (CHR ''2'' # s) = CHR ''2'' # s" "skipWs [] = []"
  by (simp_all add: skipWs_def isJsonWs_def)

lemma parse_value_string:
  "parse_value (Suc n) (quoteJSONString s @ rest) = Some (JStr s, rest)"
  by (simp add: skipWs_quoted) (simp add: quoteJSONString_def parse_chars_quoted)

lemma parse_value_object:
  "parse_value (Suc n) (CHR ''{'' # quoteJSONString k @ t) =
     map_option (\<lambda>(kvs, u). (makeObject kvs, u)) (parse_members n (quoteJSONString k @ t))"
  by (simp add: skipWs_punct skipWs_quoted) (simp add: quoteJSONString_def)

lemma parse_value_two:
  "parse_value (Suc n) (CHR ''2'' # CHR '','' # rest) = Some (JNum 2, CHR '','' # rest)"
  by (simp add: skipWs_punct parse_number_def isDigit_def digitsValue_def digitValue_def)

lemma parse_members_step:
  "parse_members (Suc m) (quoteJSONString k @ CHR '':'' # t) =
     (case parse_value m t of
        None \<Rightarrow> None
      | Some (v, u) \<Rightarrow>
          (case skipWs u of
             [] \<Rightarrow> None
           | d # u' \<Rightarrow>
               if d = CHR ''}'' then Some ([(k, v)], u')
               else if d = CHR '','' then
                 map_option (\<lambda>(kvs, w). ((k, v) # kvs, w)) (parse_members m u')
               else None))"
  by (simp add: skipWs_quoted) (simp add: quoteJSONString_def parse_chars_quoted skipWs_punct)


lemma intToString_two: "intToString 2 = ''2''"
  by code_simp

lemma stringify_payload:
  "JSON_stringify (payloadObject (buildPaymentPayload b)) =
     CHR ''{'' # quoteJSONString ''x402Version'' @ CHR '':'' # CHR ''2'' # CHR '','' #
       quoteJSONString ''accepted'' @ CHR '':'' # CHR ''{'' #
         quoteJSONString ''scheme'' @ CHR '':'' # quoteJSONString ''upto'' @ CHR '','' #
         quoteJSONString ''network'' @ CHR '':'' # quoteJSONString (cfg_network (bi_config b)) @ CHR '','' #
         quoteJSONString ''asset'' @ CHR '':'' # quoteJSONString (cfg_asset (bi_config b)) @ CHR '','' #
         quoteJSONString ''payTo'' @ CHR '':'' # quoteJSONString (cfg_payTo (bi_config b)) @ CHR '','' #
         quoteJSONString ''extra'' @ CHR '':'' # CHR ''{'' #
           quoteJSONString ''name'' @ CHR '':'' # quoteJSONString (cfg_tokenName (bi_config b)) @ CHR '','' #
           quoteJSONString ''version'' @ CHR '':'' # quoteJSONString (cfg_tokenVersion (bi_config b)) @
         CHR ''}'' # CHR ''}'' # CHR '','' #
       quoteJSONString ''payload'' @ CHR '':'' # CHR ''{'' #
         quoteJSONString ''authorization'' @ CHR '':'' # CHR ''{'' #
           quoteJSONString ''from'' @ CHR '':'' # quoteJSONString (bi_accountAddress b) @ CHR '','' #
           quoteJSONString ''to'' @ CHR '':'' # quoteJSONString (cfg_facilitatorSigner (bi_config b)) @ CHR '','' #
           quoteJSONString ''value'' @ CHR '':'' # quoteJSONString (bi_permitCap b) @ CHR '','' #
           quoteJSONString ''validBefore'' @ CHR '':'' # quoteJSONString (bi_deadline b) @ CHR '','' #
           quoteJSONString ''nonce'' @ CHR '':'' # quoteJSONString (bi_nonce b) @
         CHR ''}'' # CHR '','' #
         quoteJSONString ''signature'' @ CHR '':'' # quoteJSONString (bi_signature b) @
       CHR ''}'' # CHR ''}'' # []"
  by (simp add: payloadObject_def buildPaymentPayload_def intToString_two)


lemma parse_payload:
  "parse_value (Suc (Suc (Suc (Suc (Suc (Suc (Suc (Suc (Suc (Suc (Suc (Suc (Suc n)))))))))))))
     (JSON_stringify (payloadObject (buildPaymentPayload b)))
   = Some (payloadObject (buildPaymentPayload b), [])"
  unfolding stringify_payload
  by (simp add: parse_value_object parse_members_step parse_value_string parse_value_two
      skipWs_punct makeObject_def payloadObject_def buildPaymentPayload_def
      del: parse_value.simps parse_members.simps parse_elements.simps)


lemma payload_text_length:
  "6 \<le> length (JSON_stringify (payloadObject (buildPaymentPayload b)))"
proof -
  obtain t where "JSON_stringify (payloadObject (buildPaymentPayload b)) =
     CHR ''{'' # quoteJSONString ''x402Version'' @ CHR '':'' # CHR ''2'' # CHR '','' # t"
    unfolding stringify_payload by blast
  moreover have "2 \<le> length (quoteJSONString ''x402Version'')"
    by (simp add: quoteJSONString_def)
  ultimately show ?thesis by simp
qed

lemma JSON_parse_payload:
  "JSON_parse (JSON_stringify (payloadObject (buildPaymentPayload b)))
     = Some (payloadObject (buildPaymentPayload b))"
proof -
  define s where "s = JSON_stringify (payloadObject (buildPaymentPayload b))"
  define n where "n = 2 * length s - 11"
  have "6 \<le> length s" unfolding s_def by (rule payload_text_length)
  then have n: "2 * length s + 2 = n + 13" unfolding n_def by simp
  have f: "n + 13 = Suc (Suc (Suc (Suc (Suc (Suc (Suc (Suc (Suc (Suc (Suc (Suc (Suc n))))))))))))"
    by simp
  have "parse_value (2 * length s + 2) s = Some (payloadObject (buildPaymentPayload b), [])"
    unfolding n f unfolding s_def by (rule parse_payload)
  then show ?thesis
    unfolding s_def [symmetric] JSON_parse_def by (simp add: skipWs_punct)
qed

text \<open>
  C9. For every payload built by \<open>buildPaymentPayload\<close> (from a configuration, a cap and the
  output of the signing function), \<open>decodePaymentPayload\<close> applied to \<open>encodePaymentPayload\<close> of
  the payload returns, without a \<open>SyntaxError\<close>, an object equal to the payload: the same
  properties with the same values, in the same order.
\<close>

theorem payload_roundtrip:
  "decodePaymentPayload (encodePaymentPayload (buildPaymentPayload b))
     = Some (payloadObject (buildPaymentPayload b))"
  unfolding decodePaymentPayload_def encodePaymentPayload_def
    base64_roundtrip utf8_roundtrip by (rule JSON_parse_payload)

text \<open>C9, witness: the payload of the test \<open>builds x402 header with injected signature function\<close>.\<close>

theorem payload_roundtrip_witness:
  "decodePaymentPayload (encodePaymentPayload (buildPaymentPayload builtInput))
     = Some (payloadObject (buildPaymentPayload builtInput))"
  by (rule payload_roundtrip)

end
